theory Spec2Isabelle
  imports Main
begin

section \<open>JavaScript values, errors and expression trees\<close>

text \<open>
  The evaluator of \<^verbatim>\<open>lib/util/SparqlExpressionEvaluator.js\<close> works on JavaScript
  primitives: term strings, booleans, numbers and \<^verbatim>\<open>undefined\<close>. Numbers are IEEE
  doubles in the program; here their type is the parameter \<open>'n\<close> and every operation on
  them is a field of the environment, so nothing below depends on how doubles round.
\<close>

datatype 'n jsval = Undefined | Bool bool | Num 'n | Str string

text \<open>
  An expression node: \<open>Absent\<close> is \<^verbatim>\<open>null\<close>/\<^verbatim>\<open>undefined\<close>, \<open>Term\<close> a string (an IRI, a
  literal or a variable), \<open>Operation\<close> an object \<^verbatim>\<open>{type: 'operation', operator, args}\<close> and
  \<open>OtherType t\<close> an object whose type tag \<open>t\<close> is neither \<^verbatim>\<open>string\<close> nor \<^verbatim>\<open>operation\<close>:
  \<^verbatim>\<open>evaluators\<close> has an entry of its own for the tag \<^verbatim>\<open>null\<close> and for no other such tag
  (what the object \<^verbatim>\<open>evaluators\<close> inherits is not part of the model).
\<close>

datatype expression =
    Absent
  | Term string
  | Operation string "expression list"
  | OtherType string

text \<open>
  Every \<^verbatim>\<open>throw\<close> of the source is one constructor, carrying what its message is built
  from; \<open>TypeError\<close> and \<open>ReferenceError\<close> are raised by the JavaScript runtime, and
  \<open>LibraryError\<close> is whatever a collaborator (the term library, \<^verbatim>\<open>RegExp\<close>) throws.
\<close>

datatype error =
    UnsupportedExpressionType string
  | UnboundVariable string
  | UnsupportedOperator string
  | InvalidNumberOfArguments string nat nat
  | BoundExpectsVariable expression
  | NotYetSupported string
  | IriExpectsLiteralOrIri
  | NoValidIri string
  | RequiresCompatibleArguments string
  | TypeError
  | ReferenceError string
  | LibraryError string

type_synonym 'n result = "error + 'n jsval"

text \<open>The bindings object of one evaluation; \<open>None\<close> is a missing (falsy) bindings argument.\<close>

type_synonym 'n bindings = "(string \<rightharpoonup> 'n jsval) option"

definition seq :: "error + 'a \<Rightarrow> ('a \<Rightarrow> error + 'b) \<Rightarrow> error + 'b" where
  "seq r k = (case r of Inl e \<Rightarrow> Inl e | Inr v \<Rightarrow> k v)"

section \<open>The collaborators\<close>

text \<open>
  \<^verbatim>\<open>require('n3').Util\<close>: the predicates are only ever used for their truth value, the
  extractors return a JavaScript value; each of them may throw.
\<close>

record 'n N3Util_t =
  isLiteral :: "'n jsval \<Rightarrow> error + bool"
  isUri :: "'n jsval \<Rightarrow> error + bool"
  isBlank :: "'n jsval \<Rightarrow> error + bool"
  getLiteralValue :: "'n jsval \<Rightarrow> error + 'n jsval"
  getLiteralType :: "'n jsval \<Rightarrow> error + 'n jsval"
  getLiteralLanguage :: "'n jsval \<Rightarrow> error + 'n jsval"

text \<open>The number primitive of the JavaScript runtime.\<close>

record 'n Number_t =
  parseFloat :: "'n jsval \<Rightarrow> 'n"
  ToNumber :: "'n jsval \<Rightarrow> 'n"
  NumberToString :: "'n \<Rightarrow> string"
  NumberToBoolean :: "'n \<Rightarrow> bool"
  num_of_int :: "int \<Rightarrow> 'n"
  num_add :: "'n \<Rightarrow> 'n \<Rightarrow> 'n"
  num_sub :: "'n \<Rightarrow> 'n \<Rightarrow> 'n"
  num_mul :: "'n \<Rightarrow> 'n \<Rightarrow> 'n"
  num_div :: "'n \<Rightarrow> 'n \<Rightarrow> 'n"
  num_lt :: "'n \<Rightarrow> 'n \<Rightarrow> bool"
  num_le :: "'n \<Rightarrow> 'n \<Rightarrow> bool"
  num_eq :: "'n \<Rightarrow> 'n \<Rightarrow> bool"
  Math_abs :: "'n \<Rightarrow> 'n"
  Math_ceil :: "'n \<Rightarrow> 'n"
  Math_floor :: "'n \<Rightarrow> 'n"
  toFixed :: "'n \<Rightarrow> string"

text \<open>
  The whole environment: the two records above, the string built-ins whose result depends
  on Unicode tables or on number conversion, \<^verbatim>\<open>new RegExp(pattern).test(subject)\<close>, and the
  random source behind \<^verbatim>\<open>Math.random()\<close> and \<^verbatim>\<open>UUID.v4()\<close>, which is the only state: each
  draw takes the state \<open>'s\<close> of the source and returns the next one.
\<close>

record ('n, 's) env =
  N3Util :: "'n N3Util_t"
  Number :: "'n Number_t"
  toUpperCase :: "string \<Rightarrow> string"
  toLowerCase :: "string \<Rightarrow> string"
  String_substr :: "string \<Rightarrow> 'n jsval \<Rightarrow> 'n jsval \<Rightarrow> string"
  RegExp_test :: "'n jsval \<Rightarrow> 'n jsval \<Rightarrow> error + bool"
  Math_random :: "'s \<Rightarrow> 'n \<times> 's"
  UUID_v4 :: "'s \<Rightarrow> string \<times> 's"

section \<open>The core of the language\<close>

definition to_string :: "('n, 's) env \<Rightarrow> 'n jsval \<Rightarrow> string" where
  "to_string env v =
     (case v of
        Undefined \<Rightarrow> ''undefined''
      | Bool b \<Rightarrow> (if b then ''true'' else ''false'')
      | Num n \<Rightarrow> NumberToString (Number env) n
      | Str s \<Rightarrow> s)"

definition truthy :: "('n, 's) env \<Rightarrow> 'n jsval \<Rightarrow> bool" where
  "truthy env v =
     (case v of
        Undefined \<Rightarrow> False
      | Bool b \<Rightarrow> b
      | Num n \<Rightarrow> NumberToBoolean (Number env) n
      | Str s \<Rightarrow> s \<noteq> [])"

definition to_number :: "('n, 's) env \<Rightarrow> 'n jsval \<Rightarrow> 'n" where
  "to_number env v = (case v of Num n \<Rightarrow> n | _ \<Rightarrow> ToNumber (Number env) v)"

text \<open>\<^verbatim>\<open>a + b\<close>: concatenation as soon as one side is a string, addition otherwise.\<close>

definition js_plus :: "('n, 's) env \<Rightarrow> 'n jsval \<Rightarrow> 'n jsval \<Rightarrow> 'n jsval" where
  "js_plus env a b =
     (case a of
        Str x \<Rightarrow> Str (x @ to_string env b)
      | _ \<Rightarrow> (case b of
                Str y \<Rightarrow> Str (to_string env a @ y)
              | _ \<Rightarrow> Num (num_add (Number env) (to_number env a) (to_number env b))))"

text \<open>\<^verbatim>\<open>a === b\<close>: no conversion; the number primitive decides on two numbers.\<close>

definition js_strict_eq :: "('n, 's) env \<Rightarrow> 'n jsval \<Rightarrow> 'n jsval \<Rightarrow> bool" where
  "js_strict_eq env a b =
     (case a of
        Undefined \<Rightarrow> (case b of Undefined \<Rightarrow> True | _ \<Rightarrow> False)
      | Bool x \<Rightarrow> (case b of Bool y \<Rightarrow> x = y | _ \<Rightarrow> False)
      | Num x \<Rightarrow> (case b of Num y \<Rightarrow> num_eq (Number env) x y | _ \<Rightarrow> False)
      | Str x \<Rightarrow> (case b of Str y \<Rightarrow> x = y | _ \<Rightarrow> False))"

text \<open>Strings compare by code unit, lexicographically.\<close>

fun str_lt :: "string \<Rightarrow> string \<Rightarrow> bool" where
  "str_lt [] [] = False"
| "str_lt [] (y # ys) = True"
| "str_lt (x # xs) [] = False"
| "str_lt (x # xs) (y # ys) =
     ((of_char x :: nat) < of_char y \<or> (x = y \<and> str_lt xs ys))"

text \<open>\<^verbatim>\<open>a < b\<close> and \<^verbatim>\<open>a <= b\<close>; \<^verbatim>\<open>a > b\<close> is \<^verbatim>\<open>b < a\<close> and \<^verbatim>\<open>a >= b\<close> is \<^verbatim>\<open>b <= a\<close>.\<close>

definition js_lt :: "('n, 's) env \<Rightarrow> 'n jsval \<Rightarrow> 'n jsval \<Rightarrow> bool" where
  "js_lt env a b =
     (case (a, b) of
        (Str x, Str y) \<Rightarrow> str_lt x y
      | _ \<Rightarrow> num_lt (Number env) (to_number env a) (to_number env b))"

definition js_le :: "('n, 's) env \<Rightarrow> 'n jsval \<Rightarrow> 'n jsval \<Rightarrow> bool" where
  "js_le env a b =
     (case (a, b) of
        (Str x, Str y) \<Rightarrow> \<not> str_lt y x
      | _ \<Rightarrow> num_le (Number env) (to_number env a) (to_number env b))"

text \<open>
  A method call \<^verbatim>\<open>v.m(...)\<close> of a string method: anything but a string has no such method
  (or, for \<^verbatim>\<open>undefined\<close>, no properties at all), which is a TypeError.
\<close>

definition string_receiver :: "'n jsval \<Rightarrow> error + string" where
  "string_receiver v = (case v of Str s \<Rightarrow> Inr s | _ \<Rightarrow> Inl TypeError)"

text \<open>
  \<^verbatim>\<open>v.length\<close>: the length of a string, \<^verbatim>\<open>undefined\<close> (here \<open>None\<close>) on a number or a
  boolean, a TypeError on \<^verbatim>\<open>undefined\<close>.
\<close>

definition js_length :: "'n jsval \<Rightarrow> error + int option" where
  "js_length v =
     (case v of
        Str s \<Rightarrow> Inr (Some (int (length s)))
      | Undefined \<Rightarrow> Inl TypeError
      | _ \<Rightarrow> Inr None)"

text \<open>\<^verbatim>\<open>s.indexOf(b)\<close>: the first position where \<open>b\<close> occurs in \<open>s\<close>, or \<open>-1\<close>.\<close>

fun indexOf_from :: "int \<Rightarrow> string \<Rightarrow> string \<Rightarrow> int" where
  "indexOf_from i [] b = (if b = [] then i else - 1)"
| "indexOf_from i (x # xs) b =
     (if take (length b) (x # xs) = b then i else indexOf_from (i + 1) xs b)"

definition js_indexOf :: "string \<Rightarrow> string \<Rightarrow> int" where
  "js_indexOf s b = indexOf_from 0 s b"

text \<open>
  \<^verbatim>\<open>receiver.indexOf(argument)\<close> where the argument is itself a call that may throw: the
  property is read first (a TypeError on \<^verbatim>\<open>undefined\<close>), then the argument is evaluated,
  then the call is made (a TypeError when the receiver is no string).
\<close>

definition call_indexOf ::
  "('n, 's) env \<Rightarrow> 'n jsval \<Rightarrow> error + 'n jsval \<Rightarrow> error + int" where
  "call_indexOf env receiver argument =
     (case receiver of
        Undefined \<Rightarrow> Inl TypeError
      | _ \<Rightarrow> seq argument (\<lambda>b.
               case receiver of
                 Str s \<Rightarrow> Inr (js_indexOf s (to_string env b))
               | _ \<Rightarrow> Inl TypeError))"

text \<open>\<^verbatim>\<open>numeric_types.indexOf(v)\<close> on an array of strings compares with \<^verbatim>\<open>===\<close>.\<close>

fun array_indexOf_from :: "int \<Rightarrow> string list \<Rightarrow> 'n jsval \<Rightarrow> int" where
  "array_indexOf_from i [] v = - 1"
| "array_indexOf_from i (x # xs) v =
     (if (case v of Str y \<Rightarrow> y = x | _ \<Rightarrow> False) then i
      else array_indexOf_from (i + 1) xs v)"

text \<open>
  The \<open>i\<close>-th declared parameter of a function called with the array \<open>args\<close>: a parameter
  beyond the array is \<^verbatim>\<open>undefined\<close>.
\<close>

definition param :: "'n jsval list \<Rightarrow> nat \<Rightarrow> 'n jsval" where
  "param args i = (if i < length args then args ! i else Undefined)"

definition raw_param :: "expression list \<Rightarrow> nat \<Rightarrow> expression" where
  "raw_param args i = (if i < length args then args ! i else Absent)"

section \<open>Constants of the module\<close>

text \<open>The double quote character, as a one-character string.\<close>

definition dq :: string where
  "dq = [CHR 0x22]"

definition XSD :: string where
  "XSD = ''http://www.w3.org/2001/XMLSchema#''"

text \<open>
  Lines 6 and 7 both declare \<^verbatim>\<open>XSD_BOOLEAN\<close> in one \<^verbatim>\<open>var\<close> statement,
  \<^verbatim>\<open>XSD_BOOLEAN = XSD + 'boolean', XSD_BOOLEAN = XSD + 'string'\<close>: the second assignment
  is the value every later line reads.
\<close>

definition XSD_BOOLEAN :: string where
  "XSD_BOOLEAN = (let XSD_BOOLEAN = XSD @ ''boolean''; XSD_BOOLEAN = XSD @ ''string'' in XSD_BOOLEAN)"

definition XSD_TRUE :: string where
  "XSD_TRUE = dq @ ''true'' @ dq @ ''^^'' @ XSD_BOOLEAN"

definition XSD_FALSE :: string where
  "XSD_FALSE = dq @ ''false'' @ dq @ ''^^'' @ XSD_BOOLEAN"

definition numeric_type_names :: "string list" where
  "numeric_type_names =
     [''integer'', ''decimal'', ''float'',
      ''double'', ''nonPositiveInteger'', ''negativeInteger'',
      ''long'',
      ''int'',
      ''short'',
      ''byte'',
      ''nonNegativeInteger'',
      ''unsignedLong'',
      ''unsignedInt'',
      ''unsignedShort'',
      ''unsignedByte'',
      ''positiveInteger'']"

text \<open>
  The callback of the \<^verbatim>\<open>map\<close> on lines 25 to 28 stores \<^verbatim>\<open>XSD + type\<close> in \<^verbatim>\<open>XSD_NUMERIC\<close>
  under the key \<^verbatim>\<open>type.toUpperCase\<close>: the method itself, not its result, so the key is the
  text of that function, the same at every turn.
\<close>

definition toUpperCase_as_key :: string where
  "toUpperCase_as_key = ''function toUpperCase() { [native code] }''"

definition XSD_NUMERIC :: "string \<rightharpoonup> string" where
  "XSD_NUMERIC =
     fold (\<lambda>type m. m(toUpperCase_as_key \<mapsto> XSD @ type)) numeric_type_names Map.empty"

definition numeric_types :: "string list" where
  "numeric_types = map (\<lambda>type. XSD @ type) numeric_type_names"

text \<open>Reading a property of such an object: one that was never set reads as \<^verbatim>\<open>undefined\<close>.\<close>

definition property :: "(string \<rightharpoonup> string) \<Rightarrow> string \<Rightarrow> 'n jsval" where
  "property object key = (case object key of None \<Rightarrow> Undefined | Some s \<Rightarrow> Str s)"

section \<open>Helper functions\<close>

text \<open>\<^verbatim>\<open>operators.strdt\<close> and \<^verbatim>\<open>operators.strlang\<close> come first: \<^verbatim>\<open>constructLiteral\<close> calls them.\<close>

definition operators_strdt ::
  "('n, 's) env \<Rightarrow> 'n jsval \<Rightarrow> 'n jsval \<Rightarrow> 'n result" where
  "operators_strdt env lexicalForm datatypeIRI =
     seq (isUri (N3Util env) datatypeIRI) (\<lambda>uri.
       if \<not> uri then Inl (NoValidIri (to_string env datatypeIRI))
       else Inr (Str (dq @ to_string env lexicalForm @ dq @ ''^^<''
                        @ to_string env datatypeIRI @ ''>'')))"

definition operators_strlang ::
  "('n, 's) env \<Rightarrow> 'n jsval \<Rightarrow> 'n jsval \<Rightarrow> 'n result" where
  "operators_strlang env lexicalForm langTag =
     Inr (Str (dq @ to_string env lexicalForm @ dq @ ''@'' @ to_string env langTag))"

definition constructLiteral ::
  "('n, 's) env \<Rightarrow> 'n jsval \<Rightarrow> 'n jsval \<Rightarrow> 'n result" where
  "constructLiteral env lexicalForm literal =
     seq (getLiteralLanguage (N3Util env) literal) (\<lambda>lang.
     seq (getLiteralType (N3Util env) literal) (\<lambda>datatype.
       if truthy env lang then operators_strlang env lexicalForm lang
       else if truthy env datatype then operators_strdt env lexicalForm datatype
       else Inr (Str (dq @ to_string env lexicalForm @ dq))))"

text \<open>
  \<^verbatim>\<open>function isStringLiteral(str) { return N3Util.isLiteral(a) && ... }\<close>: the body reads
  \<^verbatim>\<open>a\<close>, which is neither its parameter nor a variable of the module, so evaluating the
  argument of the first call raises a ReferenceError.
\<close>

definition isStringLiteral :: "('n, 's) env \<Rightarrow> 'n jsval \<Rightarrow> error + bool" where
  "isStringLiteral env str = Inl (ReferenceError ''a'')"

text \<open>
  \<^verbatim>\<open>compatibleArguments\<close>: \<^verbatim>\<open>||\<close> and \<^verbatim>\<open>&&\<close> evaluate the right side only when needed, so the
  second argument is not inspected when the first is no literal.
\<close>

definition compatibleArguments ::
  "('n, 's) env \<Rightarrow> 'n jsval \<Rightarrow> 'n jsval \<Rightarrow> error + bool" where
  "compatibleArguments env arg1 arg2 =
     seq (isLiteral (N3Util env) arg1) (\<lambda>lit1.
       if \<not> lit1 then Inr False
       else seq (isLiteral (N3Util env) arg2) (\<lambda>lit2.
         if \<not> lit2 then Inr False
         else seq (getLiteralLanguage (N3Util env) arg1) (\<lambda>l1.
              seq (getLiteralLanguage (N3Util env) arg2) (\<lambda>l2.
                Inr ((truthy env l1 \<and> (\<not> truthy env l2 \<or> js_strict_eq env l1 l2))
                     \<or> (\<not> truthy env l1 \<and> \<not> truthy env l2))))))"

section \<open>Operators for each of the operator types\<close>

subsection \<open>17.4.1 Functional forms\<close>

definition operators_minus :: "('n, 's) env \<Rightarrow> 'n jsval \<Rightarrow> 'n jsval \<Rightarrow> 'n jsval" where
  "operators_minus env a b = Num (num_sub (Number env) (to_number env a) (to_number env b))"

definition operators_times :: "('n, 's) env \<Rightarrow> 'n jsval \<Rightarrow> 'n jsval \<Rightarrow> 'n jsval" where
  "operators_times env a b = Num (num_mul (Number env) (to_number env a) (to_number env b))"

definition operators_divide :: "('n, 's) env \<Rightarrow> 'n jsval \<Rightarrow> 'n jsval \<Rightarrow> 'n jsval" where
  "operators_divide env a b = Num (num_div (Number env) (to_number env a) (to_number env b))"

definition operators_not :: "('n, 's) env \<Rightarrow> 'n jsval \<Rightarrow> 'n jsval" where
  "operators_not env a = Bool (\<not> truthy env a)"

definition operators_and :: "('n, 's) env \<Rightarrow> 'n jsval \<Rightarrow> 'n jsval \<Rightarrow> 'n jsval" where
  "operators_and env a b = (if truthy env a then b else a)"

definition operators_or :: "('n, 's) env \<Rightarrow> 'n jsval \<Rightarrow> 'n jsval \<Rightarrow> 'n jsval" where
  "operators_or env a b = (if truthy env a then a else b)"

text \<open>
  \<^verbatim>\<open>a in this\<close>, where \<^verbatim>\<open>this\<close> is the bindings object the operator was applied to. Without
  bindings \<^verbatim>\<open>this\<close> is the global object, which has no property whose name starts with
  a question mark.
\<close>

definition in_bindings :: "string \<Rightarrow> 'n bindings \<Rightarrow> bool" where
  "in_bindings a this = (case this of None \<Rightarrow> False | Some m \<Rightarrow> m a \<noteq> None)"

text \<open>
  \<^verbatim>\<open>bound\<close> is applied to the expressions themselves. \<^verbatim>\<open>a[0]\<close> is the first character of
  a string, \<^verbatim>\<open>undefined\<close> on the empty string and on an object, a TypeError on
  \<^verbatim>\<open>null\<close>/\<^verbatim>\<open>undefined\<close>.
\<close>

definition operators_bound :: "'n bindings \<Rightarrow> expression \<Rightarrow> 'n result" where
  "operators_bound this a =
     (case a of
        Absent \<Rightarrow> Inl TypeError
      | Term s \<Rightarrow>
          (if (case s of [] \<Rightarrow> True | c # _ \<Rightarrow> c \<noteq> CHR ''?'')
           then Inl (BoundExpectsVariable a)
           else Inr (Str (if in_bindings s this then XSD_TRUE else XSD_FALSE)))
      | _ \<Rightarrow> Inl (BoundExpectsVariable a))"

text \<open>
  \<^verbatim>\<open>if\<close> calls \<^verbatim>\<open>evaluators.operation(expression1)\<close> on a value that was already evaluated:
  reading \<^verbatim>\<open>.operator\<close> of \<^verbatim>\<open>undefined\<close> is a TypeError, and on every other primitive it
  is \<^verbatim>\<open>undefined\<close>, which is no operator, so the error message is built with
  \<^verbatim>\<open>operatorName.toUpperCase()\<close> on \<^verbatim>\<open>undefined\<close>: a TypeError again.
\<close>

definition operators_if ::
  "('n, 's) env \<Rightarrow> 'n jsval \<Rightarrow> 'n jsval \<Rightarrow> 'n jsval \<Rightarrow> 'n result" where
  "operators_if env expression1 expression2 expression3 = Inl TypeError"

text \<open>
  \<^verbatim>\<open>coalesce\<close> calls \<^verbatim>\<open>this.bound(a)\<close>, but it is applied with \<^verbatim>\<open>null\<close> as \<^verbatim>\<open>this\<close>, which
  is then the global object: \<^verbatim>\<open>this.bound\<close> is no function.
\<close>

definition operators_coalesce :: "('n, 's) env \<Rightarrow> 'n jsval \<Rightarrow> 'n jsval \<Rightarrow> 'n result" where
  "operators_coalesce env a b = Inl TypeError"

definition operators_sameTerm :: "('n, 's) env \<Rightarrow> 'n jsval \<Rightarrow> 'n jsval \<Rightarrow> 'n result" where
  "operators_sameTerm env a b =
     seq (isBlank (N3Util env) a) (\<lambda>blank_a.
       if blank_a then Inr (Str XSD_FALSE)
       else seq (isBlank (N3Util env) b) (\<lambda>blank_b.
         if blank_b then Inr (Str XSD_FALSE)
         else Inr (Str (if js_strict_eq env a b then XSD_TRUE else XSD_FALSE))))"

subsection \<open>17.4.2 Functions on RDF terms\<close>

definition operators_isiri :: "('n, 's) env \<Rightarrow> 'n jsval \<Rightarrow> 'n result" where
  "operators_isiri env a =
     seq (isUri (N3Util env) a) (\<lambda>r. Inr (Str (if r then XSD_TRUE else XSD_FALSE)))"

definition operators_isblank :: "('n, 's) env \<Rightarrow> 'n jsval \<Rightarrow> 'n result" where
  "operators_isblank env a =
     seq (isBlank (N3Util env) a) (\<lambda>r. Inr (Str (if r then XSD_TRUE else XSD_FALSE)))"

definition operators_isliteral :: "('n, 's) env \<Rightarrow> 'n jsval \<Rightarrow> 'n result" where
  "operators_isliteral env a =
     seq (isLiteral (N3Util env) a) (\<lambda>r. Inr (Str (if r then XSD_TRUE else XSD_FALSE)))"

definition operators_isnumeric :: "('n, 's) env \<Rightarrow> 'n jsval \<Rightarrow> 'n result" where
  "operators_isnumeric env a =
     seq (getLiteralType (N3Util env) a) (\<lambda>t.
       Inr (Num (num_of_int (Number env) (array_indexOf_from 0 numeric_types t))))"

definition operators_str :: "('n, 's) env \<Rightarrow> 'n jsval \<Rightarrow> 'n result" where
  "operators_str env a =
     seq (isLiteral (N3Util env) a) (\<lambda>lit.
       if lit then seq (getLiteralValue (N3Util env) a) (\<lambda>v.
                     Inr (Str (dq @ to_string env v @ dq)))
       else Inr (Str (dq @ to_string env a @ dq)))"

definition operators_lang :: "('n, 's) env \<Rightarrow> 'n jsval \<Rightarrow> 'n result" where
  "operators_lang env a =
     seq (getLiteralLanguage (N3Util env) a) (\<lambda>l.
     seq (string_receiver l) (\<lambda>s.
       Inr (Str (dq @ toLowerCase env s @ dq))))"

definition operators_datatype :: "('n, 's) env \<Rightarrow> 'n jsval \<Rightarrow> 'n result" where
  "operators_datatype env a = getLiteralType (N3Util env) a"

definition operators_iri :: "('n, 's) env \<Rightarrow> 'n jsval \<Rightarrow> 'n result" where
  "operators_iri env a =
     seq (isUri (N3Util env) a) (\<lambda>uri.
       if uri then Inr a
       else seq (isStringLiteral env a) (\<lambda>lit.
         if lit then getLiteralValue (N3Util env) a
         else Inl IriExpectsLiteralOrIri))"

definition operators_uuid :: "('n, 's) env \<Rightarrow> 's \<Rightarrow> 'n result \<times> 's" where
  "operators_uuid env s =
     (case UUID_v4 env s of (u, s') \<Rightarrow> (Inr (Str (''<urn:uuid:'' @ u @ ''>'')), s'))"

definition operators_struuid :: "('n, 's) env \<Rightarrow> 's \<Rightarrow> 'n result \<times> 's" where
  "operators_struuid env s = (case UUID_v4 env s of (u, s') \<Rightarrow> (Inr (Str u), s'))"

subsection \<open>17.4.3 String functions\<close>

text \<open>
  \<^verbatim>\<open>strlen\<close>: \<^verbatim>\<open>this.strdt(N3Util.getLiteralValue(str).length, XSD_INT)\<close>. The arguments
  are evaluated before the call is attempted, and no variable \<^verbatim>\<open>XSD_INT\<close> exists.
\<close>

definition operators_strlen :: "('n, 's) env \<Rightarrow> 'n jsval \<Rightarrow> 'n result" where
  "operators_strlen env str =
     seq (getLiteralValue (N3Util env) str) (\<lambda>v.
     seq (js_length v) (\<lambda>len.
       Inl (ReferenceError ''XSD_INT'')))"

definition operators_substr ::
  "('n, 's) env \<Rightarrow> 'n jsval \<Rightarrow> 'n jsval \<Rightarrow> 'n jsval \<Rightarrow> 'n result" where
  "operators_substr env str startingLoc len =
     seq (getLiteralValue (N3Util env) str) (\<lambda>v.
     seq (string_receiver v) (\<lambda>s.
       constructLiteral env (Str (String_substr env s startingLoc len)) str))"

definition operators_ucase :: "('n, 's) env \<Rightarrow> 'n jsval \<Rightarrow> 'n result" where
  "operators_ucase env str =
     seq (getLiteralValue (N3Util env) str) (\<lambda>v.
     seq (string_receiver v) (\<lambda>s.
       constructLiteral env (Str (toUpperCase env s)) str))"

definition operators_lcase :: "('n, 's) env \<Rightarrow> 'n jsval \<Rightarrow> 'n result" where
  "operators_lcase env str =
     seq (getLiteralValue (N3Util env) str) (\<lambda>v.
     seq (string_receiver v) (\<lambda>s.
       constructLiteral env (Str (toLowerCase env s)) str))"

definition operators_strstarts :: "('n, 's) env \<Rightarrow> 'n jsval \<Rightarrow> 'n jsval \<Rightarrow> 'n result" where
  "operators_strstarts env arg1 arg2 =
     seq (compatibleArguments env arg1 arg2) (\<lambda>compatible.
       if \<not> compatible then Inl (RequiresCompatibleArguments ''STRSTARTS'')
       else seq (getLiteralValue (N3Util env) arg1) (\<lambda>a.
            seq (call_indexOf env a (getLiteralValue (N3Util env) arg2)) (\<lambda>index.
              Inr (Bool (index = 0)))))"

definition operators_strends :: "('n, 's) env \<Rightarrow> 'n jsval \<Rightarrow> 'n jsval \<Rightarrow> 'n result" where
  "operators_strends env arg1 arg2 =
     seq (compatibleArguments env arg1 arg2) (\<lambda>compatible.
       if \<not> compatible then Inl (RequiresCompatibleArguments ''STRENDS'')
       else seq (getLiteralValue (N3Util env) arg1) (\<lambda>a.
            seq (getLiteralValue (N3Util env) arg2) (\<lambda>b.
            seq (call_indexOf env a (Inr b)) (\<lambda>index.
            seq (js_length a) (\<lambda>la.
            seq (js_length b) (\<lambda>lb.
              Inr (Str (if (case (la, lb) of
                              (Some m, Some n) \<Rightarrow> index = m - n
                            | _ \<Rightarrow> False)
                        then XSD_TRUE else XSD_FALSE))))))))"

definition operators_contains :: "('n, 's) env \<Rightarrow> 'n jsval \<Rightarrow> 'n jsval \<Rightarrow> 'n result" where
  "operators_contains env arg1 arg2 =
     seq (compatibleArguments env arg1 arg2) (\<lambda>compatible.
       if \<not> compatible then Inl (RequiresCompatibleArguments ''CONTAINS'')
       else seq (getLiteralValue (N3Util env) arg1) (\<lambda>a.
            seq (call_indexOf env a (getLiteralValue (N3Util env) arg2)) (\<lambda>index.
              Inr (Str (if index > - 1 then XSD_TRUE else XSD_FALSE)))))"

text \<open>\<^verbatim>\<open>strbefore\<close> and \<^verbatim>\<open>strafter\<close> name \<^verbatim>\<open>CONTAINS\<close> in their error message, as \<^verbatim>\<open>contains\<close> does.\<close>

definition operators_strbefore :: "('n, 's) env \<Rightarrow> 'n jsval \<Rightarrow> 'n jsval \<Rightarrow> 'n result" where
  "operators_strbefore env arg1 arg2 =
     seq (compatibleArguments env arg1 arg2) (\<lambda>compatible.
       if \<not> compatible then Inl (RequiresCompatibleArguments ''CONTAINS'')
       else seq (getLiteralValue (N3Util env) arg1) (\<lambda>a.
            seq (call_indexOf env a (getLiteralValue (N3Util env) arg2)) (\<lambda>index.
            seq (if index > - 1
                 then seq (string_receiver arg1) (\<lambda>s.
                        Inr (Str (String_substr env s
                                    (Num (num_of_int (Number env) (index - 1)))
                                    (Num (num_of_int (Number env) 1)))))
                 else Inr (Str [])) (\<lambda>lexicalForm.
              constructLiteral env lexicalForm arg1))))"

definition operators_strafter :: "('n, 's) env \<Rightarrow> 'n jsval \<Rightarrow> 'n jsval \<Rightarrow> 'n result" where
  "operators_strafter env arg1 arg2 =
     seq (compatibleArguments env arg1 arg2) (\<lambda>compatible.
       if \<not> compatible then Inl (RequiresCompatibleArguments ''CONTAINS'')
       else seq (getLiteralValue (N3Util env) arg1) (\<lambda>a.
            seq (getLiteralValue (N3Util env) arg2) (\<lambda>b.
            seq (call_indexOf env a (Inr b)) (\<lambda>index.
            seq (if js_strict_eq env b (Str []) then Inr a
                 else if \<not> index > - 1 then Inr (Str [])
                 else seq (js_length arg2) (\<lambda>len2.
                      seq (js_length arg1) (\<lambda>len1.
                        case (len2, len1) of
                          (Some n2, Some n1) \<Rightarrow>
                            (if index + n2 < n1
                             then seq (string_receiver arg1) (\<lambda>s.
                                    Inr (Str (String_substr env s
                                                (Num (num_of_int (Number env) (index + n2)))
                                                (Num (num_of_int (Number env) 1)))))
                             else Inr (Str []))
                        | _ \<Rightarrow> Inr (Str [])))) (\<lambda>lexicalForm.
              constructLiteral env lexicalForm arg1)))))"

text \<open>
  \<^verbatim>\<open>concat\<close> declares no parameter and calls \<^verbatim>\<open>arguments.forEach\<close>; the \<^verbatim>\<open>arguments\<close>
  object is no array and has no such method.
\<close>

definition operators_concat :: "('n, 's) env \<Rightarrow> 'n jsval list \<Rightarrow> 'n result" where
  "operators_concat env arguments = Inl TypeError"

definition operators_langmatches :: "('n, 's) env \<Rightarrow> 'n jsval \<Rightarrow> 'n jsval \<Rightarrow> 'n result" where
  "operators_langmatches env a b =
     seq (string_receiver a) (\<lambda>x.
     seq (string_receiver b) (\<lambda>y.
       Inr (Bool (toLowerCase env x = toLowerCase env y))))"

definition operators_regex :: "('n, 's) env \<Rightarrow> 'n jsval \<Rightarrow> 'n jsval \<Rightarrow> 'n result" where
  "operators_regex env subject pattern =
     seq (isLiteral (N3Util env) subject) (\<lambda>lit.
     seq (if lit then getLiteralValue (N3Util env) subject else Inr subject) (\<lambda>subject.
     seq (getLiteralValue (N3Util env) pattern) (\<lambda>p.
     seq (RegExp_test env p subject) (\<lambda>r.
       Inr (Bool r)))))"

subsection \<open>17.4.4 Functions on numerics, 17.5 constructor functions\<close>

text \<open>\<^verbatim>\<open>round\<close> calls \<^verbatim>\<open>Math.abs\<close>, as \<^verbatim>\<open>abs\<close> does.\<close>

definition operators_abs :: "('n, 's) env \<Rightarrow> 'n jsval \<Rightarrow> 'n jsval" where
  "operators_abs env term = Num (Math_abs (Number env) (to_number env term))"

definition operators_round :: "('n, 's) env \<Rightarrow> 'n jsval \<Rightarrow> 'n jsval" where
  "operators_round env term = Num (Math_abs (Number env) (to_number env term))"

definition operators_ceil :: "('n, 's) env \<Rightarrow> 'n jsval \<Rightarrow> 'n jsval" where
  "operators_ceil env term = Num (Math_ceil (Number env) (to_number env term))"

definition operators_floor :: "('n, 's) env \<Rightarrow> 'n jsval \<Rightarrow> 'n jsval" where
  "operators_floor env term = Num (Math_floor (Number env) (to_number env term))"

definition operators_rand :: "('n, 's) env \<Rightarrow> 's \<Rightarrow> 'n result \<times> 's" where
  "operators_rand env s = (case Math_random env s of (r, s') \<Rightarrow> (Inr (Num r), s'))"

definition operators_xsd_double :: "('n, 's) env \<Rightarrow> 'n jsval \<Rightarrow> 'n result" where
  "operators_xsd_double env a =
     (case a of
        Num n \<Rightarrow>
          (let a = toFixed (Number env) n;
               a = (if js_indexOf a ''.'' < 0 then a @ ''.0'' else a)
           in Inr (Str (dq @ a @ dq @ ''^^http://www.w3.org/2001/XMLSchema#double'')))
      | _ \<Rightarrow> Inl TypeError)"

section \<open>The operator table\<close>

text \<open>
  What the evaluator reads of an operator: \<^verbatim>\<open>operator.length\<close> (the number of declared
  parameters), the function itself, and the tags \<^verbatim>\<open>type\<close> and \<^verbatim>\<open>resultType\<close>, unset at
  first. An operator tagged \<^verbatim>\<open>acceptsExpressions\<close> is applied to the argument expressions
  with the bindings as \<^verbatim>\<open>this\<close> (\<open>Raw\<close>); every other one is applied to the evaluated
  arguments (\<open>Evaluated\<close>) and may draw from the random source.
\<close>

datatype tag = Numeric | Boolean

datatype ('n, 's) implementation =
    Evaluated "'n jsval list \<Rightarrow> 's \<Rightarrow> 'n result \<times> 's"
  | Raw "'n bindings \<Rightarrow> expression list \<Rightarrow> 'n result"

record ('n, 's) operator =
  op_length :: nat
  op_impl :: "('n, 's) implementation"
  op_type :: "tag option"
  op_resultType :: "tag option"

definition acceptsExpressions :: "('n, 's) operator \<Rightarrow> bool" where
  "acceptsExpressions operator = (case op_impl operator of Raw f \<Rightarrow> True | Evaluated f \<Rightarrow> False)"

text \<open>Functions of one to three declared parameters that leave the random source alone.\<close>

definition fn1 :: "('n jsval \<Rightarrow> 'n result) \<Rightarrow> ('n, 's) implementation" where
  "fn1 f = Evaluated (\<lambda>args s. (f (param args 0), s))"

definition fn2 :: "('n jsval \<Rightarrow> 'n jsval \<Rightarrow> 'n result) \<Rightarrow> ('n, 's) implementation" where
  "fn2 f = Evaluated (\<lambda>args s. (f (param args 0) (param args 1), s))"

definition fn3 ::
  "('n jsval \<Rightarrow> 'n jsval \<Rightarrow> 'n jsval \<Rightarrow> 'n result) \<Rightarrow> ('n, 's) implementation" where
  "fn3 f = Evaluated (\<lambda>args s. (f (param args 0) (param args 1) (param args 2), s))"

definition entry ::
  "string \<Rightarrow> nat \<Rightarrow> ('n, 's) implementation \<Rightarrow> string \<times> ('n, 's) operator" where
  "entry name n f =
     (name, \<lparr>op_length = n, op_impl = f, op_type = None, op_resultType = None\<rparr>)"

text \<open>A function whose body is a single \<^verbatim>\<open>throw\<close>, whatever its parameters.\<close>

definition throwing :: "error \<Rightarrow> ('n, 's) implementation" where
  "throwing e = Evaluated (\<lambda>args s. (Inl e, s))"

text \<open>A function with an empty body returns \<^verbatim>\<open>undefined\<close>.\<close>

definition empty_body :: "('n, 's) implementation" where
  "empty_body = Evaluated (\<lambda>args s. (Inr Undefined, s))"

text \<open>
  The object literal \<^verbatim>\<open>operators\<close>, in the order of the source. The entry \<^verbatim>\<open>uri: this.iri\<close>
  is left out: \<^verbatim>\<open>this\<close> is not the object under construction, so its value is
  \<^verbatim>\<open>undefined\<close> and a lookup of \<^verbatim>\<open>uri\<close> finds no operator.
\<close>

definition operator_table :: "('n, 's) env \<Rightarrow> (string \<times> ('n, 's) operator) list" where
  "operator_table env =
   [entry ''+'' 2 (fn2 (\<lambda>a b. Inr (js_plus env a b))),
    entry ''-'' 2 (fn2 (\<lambda>a b. Inr (operators_minus env a b))),
    entry ''*'' 2 (fn2 (\<lambda>a b. Inr (operators_times env a b))),
    entry ''/'' 2 (fn2 (\<lambda>a b. Inr (operators_divide env a b))),
    entry ''='' 2 (fn2 (\<lambda>a b. Inr (Bool (js_strict_eq env a b)))),
    entry ''!='' 2 (fn2 (\<lambda>a b. Inr (Bool (\<not> js_strict_eq env a b)))),
    entry ''<'' 2 (fn2 (\<lambda>a b. Inr (Bool (js_lt env a b)))),
    entry ''<='' 2 (fn2 (\<lambda>a b. Inr (Bool (js_le env a b)))),
    entry ''>'' 2 (fn2 (\<lambda>a b. Inr (Bool (js_lt env b a)))),
    entry ''>='' 2 (fn2 (\<lambda>a b. Inr (Bool (js_le env b a)))),
    entry ''!'' 1 (fn1 (\<lambda>a. Inr (operators_not env a))),
    entry ''&&'' 2 (fn2 (\<lambda>a b. Inr (operators_and env a b))),
    entry ''||'' 2 (fn2 (\<lambda>a b. Inr (operators_or env a b))),
    entry ''bound'' 1 (Raw (\<lambda>this args. operators_bound this (raw_param args 0))),
    entry ''if'' 3 (fn3 (operators_if env)),
    entry ''coalesce'' 2 (fn2 (operators_coalesce env)),
    entry ''exists'' 1 (throwing (NotYetSupported ''EXISTS'')),
    entry ''not exists'' 1 (throwing (NotYetSupported ''NOT EXISTS'')),
    entry ''sameTerm'' 2 (fn2 (operators_sameTerm env)),
    entry ''in'' 0 (throwing (NotYetSupported ''IN'')),
    entry ''not in'' 0 (throwing (NotYetSupported ''NOT IN'')),
    entry ''isiri'' 1 (fn1 (operators_isiri env)),
    entry ''isblank'' 1 (fn1 (operators_isblank env)),
    entry ''isliteral'' 1 (fn1 (operators_isliteral env)),
    entry ''isnumeric'' 1 (fn1 (operators_isnumeric env)),
    entry ''str'' 1 (fn1 (operators_str env)),
    entry ''lang'' 1 (fn1 (operators_lang env)),
    entry ''datatype'' 1 (fn1 (operators_datatype env)),
    entry ''iri'' 1 (fn1 (operators_iri env)),
    entry ''bnode'' 1 (throwing (NotYetSupported ''BNODE'')),
    entry ''strdt'' 2 (fn2 (operators_strdt env)),
    entry ''strlang'' 2 (fn2 (operators_strlang env)),
    entry ''uuid'' 0 (Evaluated (\<lambda>args. operators_uuid env)),
    entry ''struuid'' 0 (Evaluated (\<lambda>args. operators_struuid env)),
    entry ''strlen'' 1 (fn1 (operators_strlen env)),
    entry ''substr'' 3 (fn3 (operators_substr env)),
    entry ''ucase'' 1 (fn1 (operators_ucase env)),
    entry ''lcase'' 1 (fn1 (operators_lcase env)),
    entry ''strstarts'' 2 (fn2 (operators_strstarts env)),
    entry ''strends'' 2 (fn2 (operators_strends env)),
    entry ''contains'' 2 (fn2 (operators_contains env)),
    entry ''strbefore'' 2 (fn2 (operators_strbefore env)),
    entry ''strafter'' 2 (fn2 (operators_strafter env)),
    entry ''encode_for_uri'' 1 (throwing (NotYetSupported ''ENCODE_FOR_URI'')),
    entry ''concat'' 0 (Evaluated (\<lambda>args s. (operators_concat env args, s))),
    entry ''langmatches'' 2 (fn2 (operators_langmatches env)),
    entry ''regex'' 2 (fn2 (operators_regex env)),
    entry ''replace'' 4 (throwing (NotYetSupported ''REPLACE'')),
    entry ''abs'' 1 (fn1 (\<lambda>term. Inr (operators_abs env term))),
    entry ''round'' 1 (fn1 (\<lambda>term. Inr (operators_round env term))),
    entry ''ceil'' 1 (fn1 (\<lambda>term. Inr (operators_ceil env term))),
    entry ''floor'' 1 (fn1 (\<lambda>term. Inr (operators_floor env term))),
    entry ''rand'' 0 (Evaluated (\<lambda>args. operators_rand env)),
    entry ''now'' 0 empty_body,
    entry ''year'' 1 empty_body,
    entry ''month'' 1 empty_body,
    entry ''day'' 1 empty_body,
    entry ''hours'' 1 empty_body,
    entry ''minutes'' 1 empty_body,
    entry ''seconds'' 1 empty_body,
    entry ''timezone'' 1 empty_body,
    entry ''tz'' 1 empty_body,
    entry ''md5'' 1 empty_body,
    entry ''sha1'' 1 empty_body,
    entry ''sha256'' 1 empty_body,
    entry ''sha384'' 1 empty_body,
    entry ''sha512'' 1 empty_body,
    entry ''http://www.w3.org/2001/XMLSchema#integer'' 1 empty_body,
    entry ''http://www.w3.org/2001/XMLSchema#decimal'' 1 empty_body,
    entry ''http://www.w3.org/2001/XMLSchema#float'' 1 empty_body,
    entry ''http://www.w3.org/2001/XMLSchema#double'' 1 (fn1 (operators_xsd_double env)),
    entry ''http://www.w3.org/2001/XMLSchema#nonPositiveInteger'' 1 empty_body,
    entry ''http://www.w3.org/2001/XMLSchema#negativeInteger'' 1 empty_body,
    entry ''http://www.w3.org/2001/XMLSchema#long'' 1 empty_body,
    entry ''http://www.w3.org/2001/XMLSchema#int'' 1 empty_body,
    entry ''http://www.w3.org/2001/XMLSchema#short'' 1 empty_body,
    entry ''http://www.w3.org/2001/XMLSchema#byte'' 1 empty_body,
    entry ''http://www.w3.org/2001/XMLSchema#nonNegativeInteger'' 1 empty_body,
    entry ''http://www.w3.org/2001/XMLSchema#unsignedLong'' 1 empty_body,
    entry ''http://www.w3.org/2001/XMLSchema#unsignedInt'' 1 empty_body,
    entry ''http://www.w3.org/2001/XMLSchema#unsignedShort'' 1 empty_body,
    entry ''http://www.w3.org/2001/XMLSchema#unsignedByte'' 1 empty_body,
    entry ''http://www.w3.org/2001/XMLSchema#positiveInteger'' 1 empty_body,
    entry ''http://www.w3.org/2001/XMLSchema#string'' 1 empty_body,
    entry ''http://www.w3.org/2001/XMLSchema#boolean'' 1 empty_body,
    entry ''http://www.w3.org/2001/XMLSchema#dateTime'' 1 empty_body]"

text \<open>
  One \<^verbatim>\<open>forEach\<close> loop of the tagging code at the end of the module: it updates the entry
  of every name of the list and leaves the others as they are.
\<close>

definition tag_all ::
  "(('n, 's) operator \<Rightarrow> ('n, 's) operator) \<Rightarrow> string list \<Rightarrow>
   (string \<rightharpoonup> ('n, 's) operator) \<Rightarrow> (string \<rightharpoonup> ('n, 's) operator)" where
  "tag_all f names ops =
     (\<lambda>operatorName. if operatorName \<in> set names then map_option f (ops operatorName)
                     else ops operatorName)"

definition numeric_argument_operators :: "string list" where
  "numeric_argument_operators =
     [''+'', ''-'', ''*'', ''/'', ''<'', ''<='', ''>'', ''>='',
      ''abs'', ''round'', ''ceil'', ''floor''] @ numeric_types"

definition boolean_argument_operators :: "string list" where
  "boolean_argument_operators = [''!'', ''&&'', ''||'']"

definition numeric_result_operators :: "string list" where
  "numeric_result_operators = [''+'', ''-'', ''*'', ''/'', ''<'', ''<='', ''>'', ''>='']"

definition boolean_result_operators :: "string list" where
  "boolean_result_operators =
     [''!'', ''&&'', ''||'', ''='', ''<'', ''<='', ''>'', ''>='', ''langmatches'', ''regex'']"

text \<open>
  The table after the four tagging loops, in their order. A lookup finds the keys of the
  object literal only; what a JavaScript object inherits (\<^verbatim>\<open>toString\<close>, \<^verbatim>\<open>constructor\<close>
  and the like) is not part of the model.
\<close>

definition operators :: "('n, 's) env \<Rightarrow> string \<rightharpoonup> ('n, 's) operator" where
  "operators env =
     tag_all (\<lambda>operator. operator\<lparr>op_resultType := Some Boolean\<rparr>) boolean_result_operators
    (tag_all (\<lambda>operator. operator\<lparr>op_type := Some Numeric, op_resultType := Some Numeric\<rparr>)
       numeric_result_operators
    (tag_all (\<lambda>operator. operator\<lparr>op_type := Some Boolean\<rparr>) boolean_argument_operators
    (tag_all (\<lambda>operator. operator\<lparr>op_type := Some Numeric\<rparr>) numeric_argument_operators
    (map_of (operator_table env)))))"

section \<open>Evaluators for each of the expression types\<close>

text \<open>
  A compiled evaluator takes the bindings and the state of the random source, and returns
  a value or the error it threw, with the state of the random source afterwards.
\<close>

type_synonym ('n, 's) evaluator = "'n bindings \<Rightarrow> 's \<Rightarrow> 'n result \<times> 's"

definition noop :: "('n, 's) evaluator" where
  "noop = (\<lambda>bindings s. (Inr Undefined, s))"

definition evaluators_string :: "string \<Rightarrow> ('n, 's) evaluator" where
  "evaluators_string expression =
     (if (case expression of [] \<Rightarrow> True | c # _ \<Rightarrow> c \<noteq> CHR ''?'')
      then (\<lambda>bindings s. (Inr (Str expression), s))
      else (\<lambda>bindings s.
              case bindings of
                None \<Rightarrow> (Inl (UnboundVariable expression), s)
              | Some m \<Rightarrow>
                  (case m expression of
                     None \<Rightarrow> (Inl (UnboundVariable expression), s)
                   | Some v \<Rightarrow> (Inr v, s))))"

text \<open>The conversion of one evaluated argument, by the \<^verbatim>\<open>type\<close> tag of the operator.\<close>

definition convert_argument ::
  "('n, 's) env \<Rightarrow> tag option \<Rightarrow> 'n jsval \<Rightarrow> 'n result" where
  "convert_argument env type arg =
     (case type of
        Some Numeric \<Rightarrow>
          seq (getLiteralValue (N3Util env) arg) (\<lambda>v. Inr (Num (parseFloat (Number env) v)))
      | Some Boolean \<Rightarrow>
          (if js_strict_eq env arg (Str XSD_FALSE) then Inr (Bool False)
           else seq (isLiteral (N3Util env) arg) (\<lambda>lit.
                  if \<not> lit then Inr (Bool True)
                  else seq (getLiteralValue (N3Util env) arg) (\<lambda>v.
                         Inr (Bool (\<not> js_strict_eq env v (Str ''0''))))))
      | None \<Rightarrow> Inr arg)"

text \<open>
  The loop that evaluates the arguments: each one is evaluated and converted before the
  next is looked at; the result is the pair of \<^verbatim>\<open>args\<close> and \<^verbatim>\<open>origArgs\<close>.
\<close>

fun evaluate_arguments ::
  "('n, 's) env \<Rightarrow> tag option \<Rightarrow> ('n, 's) evaluator list \<Rightarrow> 'n bindings \<Rightarrow> 's \<Rightarrow>
   (error + 'n jsval list \<times> 'n jsval list) \<times> 's" where
  "evaluate_arguments env type [] bindings s = (Inr ([], []), s)"
| "evaluate_arguments env type (argumentExpression # rest) bindings s =
     (case argumentExpression bindings s of
        (Inl e, s') \<Rightarrow> (Inl e, s')
      | (Inr arg, s') \<Rightarrow>
          (case convert_argument env type arg of
             Inl e \<Rightarrow> (Inl e, s')
           | Inr converted \<Rightarrow>
               (case evaluate_arguments env type rest bindings s' of
                  (Inl e, s'') \<Rightarrow> (Inl e, s'')
                | (Inr (args, origArgs), s'') \<Rightarrow>
                    (Inr (converted # args, arg # origArgs), s''))))"

text \<open>The conversion of the result, by the \<^verbatim>\<open>resultType\<close> tag of the operator.\<close>

definition convert_result ::
  "('n, 's) env \<Rightarrow> tag option \<Rightarrow> 'n jsval list \<Rightarrow> 'n jsval \<Rightarrow> 'n result" where
  "convert_result env resultType origArgs result =
     (case resultType of
        Some Numeric \<Rightarrow>
          seq (getLiteralType (N3Util env) (param origArgs 0)) (\<lambda>t.
            let type = (if truthy env t then t else property XSD_NUMERIC ''INTEGER'')
            in Inr (Str (dq @ to_string env result @ dq @ ''^^'' @ to_string env type)))
      | Some Boolean \<Rightarrow> Inr (Str (if truthy env result then XSD_TRUE else XSD_FALSE))
      | None \<Rightarrow> Inr result)"

text \<open>The function that evaluates the operator with the arguments and bindings.\<close>

definition operation_closure ::
  "('n, 's) env \<Rightarrow> ('n, 's) operator \<Rightarrow> ('n jsval list \<Rightarrow> 's \<Rightarrow> 'n result \<times> 's) \<Rightarrow>
   ('n, 's) evaluator list \<Rightarrow> ('n, 's) evaluator" where
  "operation_closure env operator f argumentExpressions =
     (\<lambda>bindings s.
        case evaluate_arguments env (op_type operator) argumentExpressions bindings s of
          (Inl e, s') \<Rightarrow> (Inl e, s')
        | (Inr (args, origArgs), s') \<Rightarrow>
            (case f args s' of
               (Inl e, s'') \<Rightarrow> (Inl e, s'')
             | (Inr result, s'') \<Rightarrow>
                 (convert_result env (op_resultType operator) origArgs result, s'')))"

text \<open>
  \<^verbatim>\<open>SparqlExpressionEvaluator(expression)\<close>, \<^verbatim>\<open>evaluators.operation\<close> and the loop of the
  latter that compiles the arguments. Each returns the compiled evaluator or the error
  thrown while compiling; no bindings exist yet at that point.
\<close>

fun SparqlExpressionEvaluator ::
      "('n, 's) env \<Rightarrow> expression \<Rightarrow> error + ('n, 's) evaluator"
  and evaluators_operation ::
      "('n, 's) env \<Rightarrow> string \<Rightarrow> expression list \<Rightarrow> error + ('n, 's) evaluator"
  and compile_arguments ::
      "('n, 's) env \<Rightarrow> expression list \<Rightarrow> error + ('n, 's) evaluator list"
where
  "SparqlExpressionEvaluator env Absent = Inr noop"
| "SparqlExpressionEvaluator env (Term expression) =
     (if expression = [] then Inr noop else Inr (evaluators_string expression))"
| "SparqlExpressionEvaluator env (Operation operatorName args) =
     evaluators_operation env operatorName args"
| "SparqlExpressionEvaluator env (OtherType expressionType) =
     (if expressionType = ''null'' then Inr noop
      else Inl (UnsupportedExpressionType expressionType))"
| "evaluators_operation env operatorName args =
     (case operators env operatorName of
        None \<Rightarrow> Inl (UnsupportedOperator (toUpperCase env operatorName))
      | Some operator \<Rightarrow>
          if op_length operator \<noteq> length args
          then Inl (InvalidNumberOfArguments (toUpperCase env operatorName)
                      (length args) (op_length operator))
          else (case op_impl operator of
                  Raw f \<Rightarrow> Inr (\<lambda>bindings s. (f bindings args, s))
                | Evaluated f \<Rightarrow>
                    (case compile_arguments env args of
                       Inl e \<Rightarrow> Inl e
                     | Inr argumentExpressions \<Rightarrow>
                         Inr (operation_closure env operator f argumentExpressions))))"
| "compile_arguments env [] = Inr []"
| "compile_arguments env (arg # rest) =
     (case SparqlExpressionEvaluator env arg of
        Inl e \<Rightarrow> Inl e
      | Inr argumentExpression \<Rightarrow>
          (case compile_arguments env rest of
             Inl e \<Rightarrow> Inl e
           | Inr argumentExpressions \<Rightarrow> Inr (argumentExpression # argumentExpressions)))"

text \<open>\<^verbatim>\<open>SparqlExpressionEvaluator.evaluate\<close>: compile, then apply to the bindings.\<close>

definition evaluate ::
  "('n, 's) env \<Rightarrow> expression \<Rightarrow> 'n bindings \<Rightarrow> 's \<Rightarrow> 'n result \<times> 's" where
  "evaluate env expression bindings s =
     (case SparqlExpressionEvaluator env expression of
        Inl e \<Rightarrow> (Inl e, s)
      | Inr evaluator \<Rightarrow> evaluator bindings s)"

section \<open>Notions used by the properties\<close>

text \<open>The operators that draw from the random source, and the expressions that name one.\<close>

definition random_operators :: "string list" where
  "random_operators = [''rand'', ''uuid'', ''struuid'']"

fun contains_random_operator :: "expression \<Rightarrow> bool"
  and any_contains_random_operator :: "expression list \<Rightarrow> bool" where
  "contains_random_operator (Operation operatorName args) =
     (operatorName \<in> set random_operators \<or> any_contains_random_operator args)"
| "contains_random_operator Absent = False"
| "contains_random_operator (Term t) = False"
| "contains_random_operator (OtherType t) = False"
| "any_contains_random_operator [] = False"
| "any_contains_random_operator (arg # rest) =
     (contains_random_operator arg \<or> any_contains_random_operator rest)"

text \<open>
  An evaluator is stateless when its result is the same from every state of the random
  source and it hands the state back as it got it; an implementation is pure when the
  same holds of the function it applies to the evaluated arguments.
\<close>

definition stateless :: "('n, 's) evaluator \<Rightarrow> bool" where
  "stateless evaluator =
     (\<forall>bindings s s'. evaluator bindings s = (fst (evaluator bindings s'), s))"

definition pure_implementation :: "('n, 's) implementation \<Rightarrow> bool" where
  "pure_implementation i =
     (case i of
        Raw g \<Rightarrow> True
      | Evaluated f \<Rightarrow> (\<forall>args s s'. f args s = (fst (f args s'), s)))"

section \<open>A test double for the collaborators\<close>

text \<open>
  Modelled from the spec: the term library \<^verbatim>\<open>n3\<close> is not part of the repository. Section
  3 of the specification gives the shapes of a term: bare IRI text, a quoted literal, a
  quoted literal followed by \<^verbatim>\<open>^^\<close> and a datatype, a quoted literal followed by \<^verbatim>\<open>@\<close>
  and a language tag; a blank node starts with \<^verbatim>\<open>_:\<close>. The lexical value is the text
  between the first and the last quote. A literal without a datatype or without a
  language tag reports the empty string for it.
\<close>

fun split_last_quote :: "string \<Rightarrow> (string \<times> string) option" where
  "split_last_quote [] = None"
| "split_last_quote (c # cs) =
     (case split_last_quote cs of
        Some (lexical, suffix) \<Rightarrow> Some (c # lexical, suffix)
      | None \<Rightarrow> if c = CHR 0x22 then Some ([], cs) else None)"

definition literal_parts :: "'n jsval \<Rightarrow> (string \<times> string) option" where
  "literal_parts v =
     (case v of
        Str (c # cs) \<Rightarrow> if c = CHR 0x22 then split_last_quote cs else None
      | _ \<Rightarrow> None)"

definition not_a_literal :: error where
  "not_a_literal = LibraryError ''is not a literal''"

text \<open>
  Modelled from the spec: the six functions of the term library (\<^verbatim>\<open>N3Util\<close>, missing from
  the repository), on the term shapes above.
\<close>

definition test_N3Util :: "'n N3Util_t" where
  "test_N3Util =
     \<lparr>isLiteral = (\<lambda>v. Inr (case v of Str (c # cs) \<Rightarrow> c = CHR 0x22 | _ \<Rightarrow> False)),
      isUri = (\<lambda>v. Inr (case v of Str (c # cs) \<Rightarrow> c \<noteq> CHR 0x22 \<and> c \<noteq> CHR ''_''
                               | _ \<Rightarrow> False)),
      isBlank = (\<lambda>v. Inr (case v of Str (a # b # cs) \<Rightarrow> a = CHR ''_'' \<and> b = CHR '':''
                                 | _ \<Rightarrow> False)),
      getLiteralValue = (\<lambda>v. case literal_parts v of
                                Some (lexical, suffix) \<Rightarrow> Inr (Str lexical)
                              | None \<Rightarrow> Inl not_a_literal),
      getLiteralType = (\<lambda>v. case literal_parts v of
                               Some (lexical, suffix) \<Rightarrow>
                                 (case suffix of
                                    [] \<Rightarrow> Inr (Str [])
                                  | c # cs \<Rightarrow>
                                      if c = CHR ''@'' then Inr (Str [])
                                      else if take 2 suffix = ''^^'' then Inr (Str (drop 2 suffix))
                                      else Inl not_a_literal)
                             | None \<Rightarrow> Inl not_a_literal),
      getLiteralLanguage = (\<lambda>v. case literal_parts v of
                                   Some (lexical, suffix) \<Rightarrow>
                                     (case suffix of
                                        [] \<Rightarrow> Inr (Str [])
                                      | c # cs \<Rightarrow>
                                          if c = CHR ''@'' then Inr (Str cs)
                                          else if take 2 suffix = ''^^'' then Inr (Str [])
                                          else Inl not_a_literal)
                                 | None \<Rightarrow> Inl not_a_literal)\<rparr>"

text \<open>
  Numbers of the test double are the integers, with \<open>None\<close> for \<^verbatim>\<open>NaN\<close>: enough to run
  the evaluator on integer literals. A quotient that is no integer is outside of it.
\<close>

type_synonym test_number = "int option"

definition digit_value :: "char \<Rightarrow> nat option" where
  "digit_value c =
     map_of [(CHR ''0'', 0), (CHR ''1'', 1), (CHR ''2'', 2), (CHR ''3'', 3), (CHR ''4'', 4),
             (CHR ''5'', 5), (CHR ''6'', 6), (CHR ''7'', 7), (CHR ''8'', 8), (CHR ''9'', 9)] c"

fun leading_digits :: "string \<Rightarrow> nat list" where
  "leading_digits [] = []"
| "leading_digits (c # cs) =
     (case digit_value c of None \<Rightarrow> [] | Some d \<Rightarrow> d # leading_digits cs)"

definition parse_natural :: "string \<Rightarrow> int option" where
  "parse_natural s =
     (case leading_digits s of
        [] \<Rightarrow> None
      | ds \<Rightarrow> Some (int (foldl (\<lambda>a d. 10 * a + d) 0 ds)))"

definition parse_integer :: "string \<Rightarrow> test_number" where
  "parse_integer s =
     (case s of
        [] \<Rightarrow> None
      | c # cs \<Rightarrow> if c = CHR ''-'' then map_option uminus (parse_natural cs)
                  else parse_natural s)"

fun decimal_digits :: "nat \<Rightarrow> nat \<Rightarrow> string" where
  "decimal_digits 0 n = []"
| "decimal_digits (Suc fuel) n =
     (if n < 10 then [''0123456789'' ! n]
      else decimal_digits fuel (n div 10) @ [''0123456789'' ! (n mod 10)])"

definition show_integer :: "test_number \<Rightarrow> string" where
  "show_integer n =
     (case n of
        None \<Rightarrow> ''NaN''
      | Some i \<Rightarrow> if i < 0 then ''-'' @ decimal_digits (Suc (nat (- i))) (nat (- i))
                  else decimal_digits (Suc (nat i)) (nat i))"

definition lift2 :: "(int \<Rightarrow> int \<Rightarrow> 'a) \<Rightarrow> 'a \<Rightarrow> test_number \<Rightarrow> test_number \<Rightarrow> 'a" where
  "lift2 f d a b = (case (a, b) of (Some x, Some y) \<Rightarrow> f x y | _ \<Rightarrow> d)"

definition test_ToNumber :: "test_number jsval \<Rightarrow> test_number" where
  "test_ToNumber v =
     (case v of
        Undefined \<Rightarrow> None
      | Bool b \<Rightarrow> Some (if b then 1 else 0)
      | Num n \<Rightarrow> n
      | Str s \<Rightarrow> if s = [] then Some 0 else parse_integer s)"

definition test_parseFloat :: "test_number jsval \<Rightarrow> test_number" where
  "test_parseFloat v = (case v of Str s \<Rightarrow> parse_integer s | Num n \<Rightarrow> n | _ \<Rightarrow> None)"

definition test_Number :: "test_number Number_t" where
  "test_Number =
     \<lparr>parseFloat = test_parseFloat,
      ToNumber = test_ToNumber,
      NumberToString = show_integer,
      NumberToBoolean = (\<lambda>n. case n of None \<Rightarrow> False | Some i \<Rightarrow> i \<noteq> 0),
      num_of_int = Some,
      num_add = lift2 (\<lambda>x y. Some (x + y)) None,
      num_sub = lift2 (\<lambda>x y. Some (x - y)) None,
      num_mul = lift2 (\<lambda>x y. Some (x * y)) None,
      num_div = lift2 (\<lambda>x y. if y \<noteq> 0 \<and> y dvd x then Some (x div y) else None) None,
      num_lt = lift2 (\<lambda>x y. x < y) False,
      num_le = lift2 (\<lambda>x y. x \<le> y) False,
      num_eq = lift2 (\<lambda>x y. x = y) False,
      Math_abs = map_option abs,
      Math_ceil = (\<lambda>n. n),
      Math_floor = (\<lambda>n. n),
      toFixed = show_integer\<rparr>"

text \<open>Case mapping of the ASCII letters; every other character is left as it is.\<close>

definition ascii_lower :: string where
  "ascii_lower = ''abcdefghijklmnopqrstuvwxyz''"

definition ascii_upper :: string where
  "ascii_upper = ''ABCDEFGHIJKLMNOPQRSTUVWXYZ''"

definition map_chars :: "string \<Rightarrow> string \<Rightarrow> string \<Rightarrow> string" where
  "map_chars xs ys s =
     map (\<lambda>c. case map_of (zip xs ys) c of None \<Rightarrow> c | Some d \<Rightarrow> d) s"

text \<open>
  \<^verbatim>\<open>s.substr(start, length)\<close>: a negative start counts from the end, a missing length
  means up to the end.
\<close>

definition test_substr :: "string \<Rightarrow> test_number jsval \<Rightarrow> test_number jsval \<Rightarrow> string" where
  "test_substr s start len =
     (let l = int (length s);
          i = (case test_ToNumber start of None \<Rightarrow> 0 | Some i \<Rightarrow> i);
          first = (if i < 0 then max (l + i) 0 else min i l);
          n = (case len of
                 Undefined \<Rightarrow> l - first
               | _ \<Rightarrow> min (max (case test_ToNumber len of None \<Rightarrow> 0 | Some n \<Rightarrow> n) 0)
                          (l - first))
      in take (nat n) (drop (nat first) s))"

definition test_to_string :: "test_number jsval \<Rightarrow> string" where
  "test_to_string v =
     (case v of
        Undefined \<Rightarrow> ''undefined''
      | Bool b \<Rightarrow> (if b then ''true'' else ''false'')
      | Num n \<Rightarrow> show_integer n
      | Str s \<Rightarrow> s)"

text \<open>
  The environment of the test double. A pattern stands for itself (no metacharacters), and
  a counter stands for the random source: each draw returns it and adds one.
\<close>

definition test_env :: "(test_number, nat) env" where
  "test_env =
     \<lparr>N3Util = test_N3Util,
      Number = test_Number,
      toUpperCase = map_chars ascii_lower ascii_upper,
      toLowerCase = map_chars ascii_upper ascii_lower,
      String_substr = test_substr,
      RegExp_test = (\<lambda>pattern subject.
                       Inr (0 \<le> js_indexOf (test_to_string subject) (test_to_string pattern))),
      Math_random = (\<lambda>s. (Some (int s), Suc s)),
      UUID_v4 = (\<lambda>s. (''uuid-'' @ show_integer (Some (int s)), Suc s))\<rparr>"

section \<open>Looking operators up\<close>

lemmas table_defs = operators_def tag_all_def operator_table_def entry_def
  boolean_result_operators_def numeric_result_operators_def boolean_argument_operators_def
  numeric_argument_operators_def numeric_types_def numeric_type_names_def XSD_def

lemmas run_defs = evaluate_def operation_closure_def evaluators_string_def
  convert_argument_def convert_result_def param_def fn1_def fn2_def fn3_def empty_body_def
  throwing_def noop_def seq_def

lemma operators_not_equal:
  "operators env ''!='' =
     Some \<lparr>op_length = 2, op_impl = fn2 (\<lambda>a b. Inr (Bool (\<not> js_strict_eq env a b))),
           op_type = None, op_resultType = None\<rparr>"
  by (simp add: table_defs)

lemma operators_equal:
  "operators env ''='' =
     Some \<lparr>op_length = 2, op_impl = fn2 (\<lambda>a b. Inr (Bool (js_strict_eq env a b))),
           op_type = None, op_resultType = Some Boolean\<rparr>"
  by (simp add: table_defs)

lemma operators_less:
  "operators env ''<'' =
     Some \<lparr>op_length = 2, op_impl = fn2 (\<lambda>a b. Inr (Bool (js_lt env a b))),
           op_type = Some Numeric, op_resultType = Some Boolean\<rparr>"
  by (simp add: table_defs)

lemma operators_plus:
  "operators env ''+'' =
     Some \<lparr>op_length = 2, op_impl = fn2 (\<lambda>a b. Inr (js_plus env a b)),
           op_type = Some Numeric, op_resultType = Some Numeric\<rparr>"
  by (simp add: table_defs)

lemma operators_not_entry:
  "operators env ''!'' =
     Some \<lparr>op_length = 1, op_impl = fn1 (\<lambda>a. Inr (operators_not env a)),
           op_type = Some Boolean, op_resultType = Some Boolean\<rparr>"
  by (simp add: table_defs)

lemma operators_and_entry:
  "operators env ''&&'' =
     Some \<lparr>op_length = 2, op_impl = fn2 (\<lambda>a b. Inr (operators_and env a b)),
           op_type = Some Boolean, op_resultType = Some Boolean\<rparr>"
  by (simp add: table_defs)

lemma operators_or_entry:
  "operators env ''||'' =
     Some \<lparr>op_length = 2, op_impl = fn2 (\<lambda>a b. Inr (operators_or env a b)),
           op_type = Some Boolean, op_resultType = Some Boolean\<rparr>"
  by (simp add: table_defs)

lemma operators_bound_entry:
  "operators env ''bound'' =
     Some \<lparr>op_length = 1, op_impl = Raw (\<lambda>this args. operators_bound this (raw_param args 0)),
           op_type = None, op_resultType = None\<rparr>"
  by (simp add: table_defs)

lemma operators_now:
  "operators env ''now'' =
     Some \<lparr>op_length = 0, op_impl = empty_body, op_type = None, op_resultType = None\<rparr>"
  by (simp add: table_defs)

lemma operators_md5:
  "operators env ''md5'' =
     Some \<lparr>op_length = 1, op_impl = empty_body, op_type = None, op_resultType = None\<rparr>"
  by (simp add: table_defs)

lemma operators_xsd_string:
  "operators env ''http://www.w3.org/2001/XMLSchema#string'' =
     Some \<lparr>op_length = 1, op_impl = empty_body, op_type = None, op_resultType = None\<rparr>"
  by (simp add: table_defs)

lemma operators_concat_entry:
  "operators env ''concat'' =
     Some \<lparr>op_length = 0, op_impl = Evaluated (\<lambda>args s. (operators_concat env args, s)),
           op_type = None, op_resultType = None\<rparr>"
  by (simp add: table_defs)

lemma operators_strstarts_entry:
  "operators env ''strstarts'' =
     Some \<lparr>op_length = 2, op_impl = fn2 (operators_strstarts env),
           op_type = None, op_resultType = None\<rparr>"
  by (simp add: table_defs)

lemma js_strict_eq_Str [simp]: "js_strict_eq env v (Str x) = (v = Str x)"
  by (cases v) (auto simp add: js_strict_eq_def)

lemmas test_defs = test_env_def test_N3Util_def test_Number_def literal_parts_def dq_def

text \<open>Every name of the four tagging loops is a key of the table, so no loop fails.\<close>

lemma table_keys:
  "map fst (operator_table env) =
     [''+'', ''-'', ''*'', ''/'', ''='', ''!='', ''<'', ''<='', ''>'', ''>='', ''!'', ''&&'', ''||'',
      ''bound'', ''if'', ''coalesce'', ''exists'', ''not exists'', ''sameTerm'', ''in'',
      ''not in'', ''isiri'', ''isblank'', ''isliteral'', ''isnumeric'', ''str'', ''lang'',
      ''datatype'', ''iri'', ''bnode'', ''strdt'', ''strlang'', ''uuid'', ''struuid'', ''strlen'',
      ''substr'', ''ucase'', ''lcase'', ''strstarts'', ''strends'', ''contains'', ''strbefore'',
      ''strafter'', ''encode_for_uri'', ''concat'', ''langmatches'', ''regex'', ''replace'',
      ''abs'', ''round'', ''ceil'', ''floor'', ''rand'', ''now'', ''year'', ''month'', ''day'',
      ''hours'', ''minutes'', ''seconds'', ''timezone'', ''tz'', ''md5'', ''sha1'', ''sha256'',
      ''sha384'', ''sha512'']
     @ numeric_types @ map (\<lambda>t. XSD @ t) [''string'', ''boolean'', ''dateTime'']"
  by (simp add: operator_table_def entry_def numeric_types_def numeric_type_names_def XSD_def)

lemma tagged_names_present:
  "set (numeric_argument_operators @ boolean_argument_operators
        @ numeric_result_operators @ boolean_result_operators)
     \<subseteq> fst ` set (operator_table env)"
  unfolding set_map[symmetric] table_keys
  by (auto simp add: numeric_argument_operators_def boolean_argument_operators_def
        numeric_result_operators_def boolean_result_operators_def)

text \<open>Line 486 tags \<^verbatim>\<open>bound\<close>, and nothing else, as taking the expressions themselves.\<close>

lemma only_bound_accepts_expressions:
  "list_all (\<lambda>(name, operator). acceptsExpressions operator = (name = ''bound''))
     (operator_table env)"
  by (simp add: operator_table_def entry_def acceptsExpressions_def fn1_def fn2_def fn3_def
        throwing_def empty_body_def)

section \<open>Comparison operators and the boolean sentinels\<close>

text \<open>
  C1. For every comparison operator (\<^verbatim>\<open>=\<close>, \<^verbatim>\<open>!=\<close>, \<^verbatim>\<open><\<close>, \<^verbatim>\<open><=\<close>, \<^verbatim>\<open>>\<close>, \<^verbatim>\<open>>=\<close>) the
  value returned is one of the two sentinel literals \<^verbatim>\<open>"true"^^xsd:boolean\<close> and
  \<^verbatim>\<open>"false"^^xsd:boolean\<close>. The program does otherwise in two places. \<^verbatim>\<open>!=\<close> is in no
  tagging list, so its result is handed back as the JavaScript boolean it is; the theorem
  evaluates \<^verbatim>\<open>"1" != "2"\<close>. And the two constants are built from \<^verbatim>\<open>XSD_BOOLEAN\<close>, which
  the second declaration on line 7 sets to the IRI of \<^verbatim>\<open>xsd:string\<close>.
\<close>

theorem C1_not_equal_returns_raw_boolean:
  "evaluate env (Operation ''!='' [Term (dq @ ''1'' @ dq), Term (dq @ ''2'' @ dq)]) bindings s =
     (Inr (Bool True), s)
   \<and> XSD_TRUE = dq @ ''true'' @ dq @ ''^^http://www.w3.org/2001/XMLSchema#string''
   \<and> XSD_FALSE = dq @ ''false'' @ dq @ ''^^http://www.w3.org/2001/XMLSchema#string''"
  by (simp add: operators_not_equal run_defs dq_def XSD_TRUE_def XSD_FALSE_def
        XSD_BOOLEAN_def XSD_def)

section \<open>Operators without an implementation\<close>

text \<open>
  C2. Evaluating one of the operators that are declared but not implemented raises an
  unsupported-operator error and never returns a value. The date and time functions, the
  hash functions and the constructors other than \<^verbatim>\<open>xsd:double\<close> have an empty body in the
  program: \<^verbatim>\<open>NOW()\<close>, \<^verbatim>\<open>MD5("abc")\<close> and \<^verbatim>\<open>xsd:string("abc")\<close> return \<^verbatim>\<open>undefined\<close>.
\<close>

theorem C2_empty_bodies_return_undefined:
  "evaluate env (Operation ''now'' []) bindings s = (Inr Undefined, s)
   \<and> evaluate env (Operation ''md5'' [Term (dq @ ''abc'' @ dq)]) bindings s = (Inr Undefined, s)
   \<and> evaluate env (Operation ''http://www.w3.org/2001/XMLSchema#string''
        [Term (dq @ ''abc'' @ dq)]) bindings s = (Inr Undefined, s)"
  by (simp add: operators_now operators_md5 operators_xsd_string run_defs dq_def)

section \<open>Arithmetic\<close>

text \<open>
  C3. The result of \<^verbatim>\<open>+\<close>, \<^verbatim>\<open>-\<close>, \<^verbatim>\<open>*\<close>, \<^verbatim>\<open>/\<close> is a literal whose datatype is that of
  the first argument, or \<^verbatim>\<open>xsd:integer\<close> when that argument has none. With the term
  library of the test double and any number primitive, \<^verbatim>\<open>"2"^^xsd:integer + "3"^^xsd:integer\<close>
  is tagged \<^verbatim>\<open>xsd:integer\<close> as claimed, but \<^verbatim>\<open>"2" + "3"\<close> is tagged \<^verbatim>\<open>undefined\<close>: the
  default \<^verbatim>\<open>XSD_NUMERIC.INTEGER\<close> was never stored.
\<close>

theorem C3_untyped_operand_is_tagged_undefined:
  "evaluate (env\<lparr>N3Util := test_N3Util\<rparr>)
     (Operation ''+'' [Term (dq @ ''2'' @ dq), Term (dq @ ''3'' @ dq)]) bindings s =
     (Inr (Str (dq @ NumberToString (Number env)
                       (num_add (Number env) (parseFloat (Number env) (Str ''2''))
                                             (parseFloat (Number env) (Str ''3'')))
                   @ dq @ ''^^undefined'')), s)
   \<and> evaluate (env\<lparr>N3Util := test_N3Util\<rparr>)
     (Operation ''+'' [Term (dq @ ''2'' @ dq @ ''^^http://www.w3.org/2001/XMLSchema#integer''),
                       Term (dq @ ''3'' @ dq @ ''^^http://www.w3.org/2001/XMLSchema#integer'')])
     bindings s =
     (Inr (Str (dq @ NumberToString (Number env)
                       (num_add (Number env) (parseFloat (Number env) (Str ''2''))
                                             (parseFloat (Number env) (Str ''3'')))
                   @ dq @ ''^^http://www.w3.org/2001/XMLSchema#integer'')), s)
   \<and> (property XSD_NUMERIC ''INTEGER'' :: 'n jsval) = Undefined"
  by (simp add: operators_plus run_defs dq_def test_N3Util_def literal_parts_def js_plus_def
        to_number_def to_string_def truthy_def property_def XSD_NUMERIC_def
        numeric_type_names_def toUpperCase_as_key_def)

text \<open>With the integers of the test double the two results read as follows.\<close>

theorem C3_untyped_operand_is_tagged_undefined_witness:
  "evaluate test_env (Operation ''+'' [Term (dq @ ''2'' @ dq), Term (dq @ ''3'' @ dq)]) None 0 =
     (Inr (Str (dq @ ''5'' @ dq @ ''^^undefined'')), 0)
   \<and> evaluate test_env
     (Operation ''+'' [Term (dq @ ''2'' @ dq @ ''^^http://www.w3.org/2001/XMLSchema#integer''),
                       Term (dq @ ''3'' @ dq @ ''^^http://www.w3.org/2001/XMLSchema#integer'')])
     None 0 =
     (Inr (Str (dq @ ''5'' @ dq @ ''^^http://www.w3.org/2001/XMLSchema#integer'')), 0)"
proof -
  have e: "test_env\<lparr>N3Util := test_N3Util\<rparr> = test_env"
    by (simp add: test_env_def)
  have n: "NumberToString (Number test_env)
             (num_add (Number test_env) (parseFloat (Number test_env) (Str ''2''))
                (parseFloat (Number test_env) (Str ''3''))) = ''5''"
    by (simp add: test_env_def test_Number_def test_parseFloat_def parse_integer_def
          parse_natural_def digit_value_def lift2_def show_integer_def eval_nat_numeral)
  from C3_untyped_operand_is_tagged_undefined[of test_env None 0, unfolded e n]
  show ?thesis by blast
qed

section \<open>Boolean conversion of arguments\<close>

text \<open>
  The conversion of line 116 compares the argument with the constant \<^verbatim>\<open>XSD_FALSE\<close> of the
  module: it gives false for that constant and for a literal whose lexical value is
  \<^verbatim>\<open>"0"\<close>, and true for everything else, non-literal IRIs included; \<^verbatim>\<open>!\<close>, \<^verbatim>\<open>&&\<close> and
  \<^verbatim>\<open>||\<close> are the operators tagged for it. The hypotheses say that the term library
  answers: \<open>lit\<close> is what \<^verbatim>\<open>isLiteral\<close> says of the term and, for a literal, \<open>v\<close> is its
  lexical value.
\<close>

lemma boolean_conversion_rule:
  assumes "isLiteral (N3Util env) t = Inr lit"
    and "lit \<Longrightarrow> getLiteralValue (N3Util env) t = Inr v"
  shows "convert_argument env (Some Boolean) t =
           Inr (Bool (\<not> (t = Str XSD_FALSE \<or> (lit \<and> v = Str ''0''))))
         \<and> (\<forall>name \<in> set [''!'', ''&&'', ''||''].
               \<exists>operator. operators env name = Some operator
                            \<and> op_type operator = Some Boolean)"
proof
  show "convert_argument env (Some Boolean) t =
          Inr (Bool (\<not> (t = Str XSD_FALSE \<or> (lit \<and> v = Str ''0''))))"
  proof (cases "t = Str XSD_FALSE")
    case True
    then show ?thesis by (simp add: convert_argument_def)
  next
    case False
    show ?thesis
    proof (cases lit)
      case True
      with False assms show ?thesis by (simp add: convert_argument_def seq_def)
    next
      case no: False
      with False assms(1) show ?thesis by (simp add: convert_argument_def seq_def)
    qed
  qed
next
  show "\<forall>name \<in> set [''!'', ''&&'', ''||''].
          \<exists>operator. operators env name = Some operator \<and> op_type operator = Some Boolean"
    by (simp add: operators_not_entry operators_and_entry operators_or_entry)
qed

text \<open>
  C4. The boolean conversion, applied to each argument of \<^verbatim>\<open>!\<close>, \<^verbatim>\<open>&&\<close> and \<^verbatim>\<open>||\<close>, maps
  a term to false exactly when it is the false-boolean sentinel \<^verbatim>\<open>"false"^^xsd:boolean\<close> or
  a literal whose lexical value is \<^verbatim>\<open>"0"\<close>. The constant the program compares with is
  built on the IRI of \<^verbatim>\<open>xsd:string\<close> (line 7), so \<^verbatim>\<open>"false"^^xsd:boolean\<close> is to it a
  literal like any other, whose lexical value is not \<^verbatim>\<open>"0"\<close>: it is converted to true, and
  \<^verbatim>\<open>!("false"^^xsd:boolean)\<close> evaluates to the false constant. The conversion itself is at
  work in the loop over the arguments: \<^verbatim>\<open>!("0")\<close> evaluates to the true constant and
  \<^verbatim>\<open>!(<http://example.org/a>)\<close> to the false one.
\<close>

theorem C4_boolean_false_literal_is_converted_to_true:
  "convert_argument (env\<lparr>N3Util := test_N3Util\<rparr>) (Some Boolean)
     (Str (dq @ ''false'' @ dq @ ''^^http://www.w3.org/2001/XMLSchema#boolean'')) =
     Inr (Bool True)
   \<and> evaluate (env\<lparr>N3Util := test_N3Util\<rparr>)
        (Operation ''!'' [Term (dq @ ''false'' @ dq @ ''^^http://www.w3.org/2001/XMLSchema#boolean'')])
        bindings s =
     (Inr (Str (dq @ ''false'' @ dq @ ''^^http://www.w3.org/2001/XMLSchema#string'')), s)
   \<and> evaluate (env\<lparr>N3Util := test_N3Util\<rparr>) (Operation ''!'' [Term (dq @ ''0'' @ dq)])
        bindings s =
     (Inr (Str (dq @ ''true'' @ dq @ ''^^http://www.w3.org/2001/XMLSchema#string'')), s)
   \<and> evaluate (env\<lparr>N3Util := test_N3Util\<rparr>) (Operation ''!'' [Term ''http://example.org/a''])
        bindings s =
     (Inr (Str (dq @ ''false'' @ dq @ ''^^http://www.w3.org/2001/XMLSchema#string'')), s)"
  by (simp add: operators_not_entry run_defs operators_not_def truthy_def test_N3Util_def
        literal_parts_def dq_def XSD_TRUE_def XSD_FALSE_def XSD_BOOLEAN_def XSD_def)

section \<open>Compatible arguments of the string functions\<close>

text \<open>
  C5, as the program has it. \<^verbatim>\<open>compatibleArguments(a, b)\<close> is true exactly when both
  arguments are literals and either the second carries no language tag or both carry the
  same one; \<^verbatim>\<open>STRSTARTS\<close>, \<^verbatim>\<open>STRENDS\<close>, \<^verbatim>\<open>CONTAINS\<close>, \<^verbatim>\<open>STRBEFORE\<close> and \<^verbatim>\<open>STRAFTER\<close> raise
  the error for incompatible arguments whenever it is false. The hypotheses say that the
  term library answers: \<open>lit1\<close> and \<open>lit2\<close> are what \<^verbatim>\<open>isLiteral\<close> says of the two
  arguments, \<open>l1\<close> and \<open>l2\<close> the language tags of two literals (a falsy value for none).
\<close>

theorem C5_compatibleArguments:
  assumes "isLiteral (N3Util env) a = Inr lit1"
    and "lit1 \<Longrightarrow> isLiteral (N3Util env) b = Inr lit2"
    and "lit1 \<and> lit2 \<Longrightarrow> getLiteralLanguage (N3Util env) a = Inr l1"
    and "lit1 \<and> lit2 \<Longrightarrow> getLiteralLanguage (N3Util env) b = Inr l2"
  shows "compatibleArguments env a b =
           Inr (lit1 \<and> lit2 \<and>
                (\<not> truthy env l2 \<or> (truthy env l1 \<and> js_strict_eq env l1 l2)))
         \<and> (compatibleArguments env a b = Inr False \<longrightarrow>
              operators_strstarts env a b = Inl (RequiresCompatibleArguments ''STRSTARTS'')
              \<and> operators_strends env a b = Inl (RequiresCompatibleArguments ''STRENDS'')
              \<and> operators_contains env a b = Inl (RequiresCompatibleArguments ''CONTAINS'')
              \<and> operators_strbefore env a b = Inl (RequiresCompatibleArguments ''CONTAINS'')
              \<and> operators_strafter env a b = Inl (RequiresCompatibleArguments ''CONTAINS''))"
proof
  show "compatibleArguments env a b =
          Inr (lit1 \<and> lit2 \<and>
               (\<not> truthy env l2 \<or> (truthy env l1 \<and> js_strict_eq env l1 l2)))"
  proof (cases lit1)
    case False
    with assms(1) show ?thesis by (simp add: compatibleArguments_def seq_def)
  next
    case l1: True
    show ?thesis
    proof (cases lit2)
      case False
      with l1 assms(1,2) show ?thesis by (simp add: compatibleArguments_def seq_def)
    next
      case True
      with l1 assms show ?thesis by (auto simp add: compatibleArguments_def seq_def)
    qed
  qed
next
  show "compatibleArguments env a b = Inr False \<longrightarrow>
          operators_strstarts env a b = Inl (RequiresCompatibleArguments ''STRSTARTS'')
          \<and> operators_strends env a b = Inl (RequiresCompatibleArguments ''STRENDS'')
          \<and> operators_contains env a b = Inl (RequiresCompatibleArguments ''CONTAINS'')
          \<and> operators_strbefore env a b = Inl (RequiresCompatibleArguments ''CONTAINS'')
          \<and> operators_strafter env a b = Inl (RequiresCompatibleArguments ''CONTAINS'')"
    by (simp add: operators_strstarts_def operators_strends_def operators_contains_def
          operators_strbefore_def operators_strafter_def seq_def)
qed

text \<open>
  C5 as stated asks for more: that both carry no tag, or both the same tag. A
  literal tagged \<^verbatim>\<open>en\<close> and a literal without a tag are compatible in the program, which
  is the third case of the argument compatibility rules of the standard that the comment
  above the function names; \<^verbatim>\<open>STRSTARTS("hello"@en, "he")\<close> raises no error.
\<close>

theorem C5_tagged_first_untagged_second:
  "compatibleArguments test_env (Str (dq @ ''hello'' @ dq @ ''@en'')) (Str (dq @ ''he'' @ dq))
     = Inr True
   \<and> getLiteralLanguage (N3Util test_env) (Str (dq @ ''hello'' @ dq @ ''@en'')) = Inr (Str ''en'')
   \<and> getLiteralLanguage (N3Util test_env) (Str (dq @ ''he'' @ dq)) = Inr (Str [])
   \<and> evaluate test_env (Operation ''strstarts''
        [Term (dq @ ''hello'' @ dq @ ''@en''), Term (dq @ ''he'' @ dq)]) None 0
     = (Inr (Bool True), 0)"
  by (simp add: compatibleArguments_def operators_strstarts_entry operators_strstarts_def
        call_indexOf_def js_indexOf_def to_string_def run_defs test_defs truthy_def)

text \<open>
  The examples of the claim: \<^verbatim>\<open>STRSTARTS("hello"@en, "he"@fr)\<close> fails,
  \<^verbatim>\<open>STRSTARTS("hello"@en, "he"@en)\<close> is true; an IRI is compatible with nothing.
\<close>

theorem C5_compatibleArguments_witness:
  "compatibleArguments test_env (Str (dq @ ''hello'' @ dq @ ''@en''))
       (Str (dq @ ''he'' @ dq @ ''@fr'')) = Inr False
   \<and> evaluate test_env (Operation ''strstarts''
        [Term (dq @ ''hello'' @ dq @ ''@en''), Term (dq @ ''he'' @ dq @ ''@fr'')]) None 0
     = (Inl (RequiresCompatibleArguments ''STRSTARTS''), 0)
   \<and> compatibleArguments test_env (Str (dq @ ''hello'' @ dq @ ''@en''))
       (Str (dq @ ''he'' @ dq @ ''@en'')) = Inr True
   \<and> evaluate test_env (Operation ''strstarts''
        [Term (dq @ ''hello'' @ dq @ ''@en''), Term (dq @ ''he'' @ dq @ ''@en'')]) None 0
     = (Inr (Bool True), 0)
   \<and> compatibleArguments test_env (Str ''http://example.org/a'') (Str (dq @ ''he'' @ dq))
     = Inr False"
proof -
  have hello: "isLiteral (N3Util test_env) (Str (dq @ ''hello'' @ dq @ ''@en'')) = Inr True"
    "getLiteralLanguage (N3Util test_env) (Str (dq @ ''hello'' @ dq @ ''@en'')) = Inr (Str ''en'')"
    by (simp_all add: test_defs)
  have fr: "isLiteral (N3Util test_env) (Str (dq @ ''he'' @ dq @ ''@fr'')) = Inr True"
    "getLiteralLanguage (N3Util test_env) (Str (dq @ ''he'' @ dq @ ''@fr'')) = Inr (Str ''fr'')"
    by (simp_all add: test_defs)
  have en: "isLiteral (N3Util test_env) (Str (dq @ ''he'' @ dq @ ''@en'')) = Inr True"
    "getLiteralLanguage (N3Util test_env) (Str (dq @ ''he'' @ dq @ ''@en'')) = Inr (Str ''en'')"
    by (simp_all add: test_defs)
  have iri: "isLiteral (N3Util test_env) (Str ''http://example.org/a'') = Inr False"
    by (simp add: test_defs)
  note t1 = C5_compatibleArguments[OF hello(1) fr(1) hello(2) fr(2)]
  note t2 = C5_compatibleArguments[OF hello(1) en(1) hello(2) en(2)]
  note t3 = C5_compatibleArguments[OF iri, of "Str (dq @ ''he'' @ dq)" False Undefined Undefined]
  have a: "compatibleArguments test_env (Str (dq @ ''hello'' @ dq @ ''@en''))
             (Str (dq @ ''he'' @ dq @ ''@fr'')) = Inr False"
    using t1 by (simp add: truthy_def)
  have b: "operators_strstarts test_env (Str (dq @ ''hello'' @ dq @ ''@en''))
             (Str (dq @ ''he'' @ dq @ ''@fr'')) = Inl (RequiresCompatibleArguments ''STRSTARTS'')"
    using t1 a by simp
  have c: "compatibleArguments test_env (Str (dq @ ''hello'' @ dq @ ''@en''))
             (Str (dq @ ''he'' @ dq @ ''@en'')) = Inr True"
    using t2 by (simp add: truthy_def)
  have d: "compatibleArguments test_env (Str ''http://example.org/a'') (Str (dq @ ''he'' @ dq))
             = Inr False"
    using t3 by simp
  have e: "evaluate test_env (Operation ''strstarts''
        [Term (dq @ ''hello'' @ dq @ ''@en''), Term (dq @ ''he'' @ dq @ ''@fr'')]) None 0
     = (Inl (RequiresCompatibleArguments ''STRSTARTS''), 0)"
    using b by (simp add: operators_strstarts_entry run_defs dq_def)
  have f: "evaluate test_env (Operation ''strstarts''
        [Term (dq @ ''hello'' @ dq @ ''@en''), Term (dq @ ''he'' @ dq @ ''@en'')]) None 0
     = (Inr (Bool True), 0)"
    using c by (simp add: operators_strstarts_entry operators_strstarts_def
          call_indexOf_def js_indexOf_def to_string_def run_defs test_defs)
  from a e c f d show ?thesis by simp
qed

section \<open>BOUND\<close>

text \<open>
  \<^verbatim>\<open>bound\<close> answers by the presence of the key in the bindings, with the constants
  \<^verbatim>\<open>XSD_TRUE\<close> and \<^verbatim>\<open>XSD_FALSE\<close> of the module, and raises no error for a variable without
  an entry; a string that does not start with a question mark is refused.
\<close>

lemma bound_by_key_presence:
  "evaluate env (Operation ''bound'' [Term (CHR ''?'' # x)]) (Some m) s =
     (Inr (Str (if CHR ''?'' # x \<in> dom m then XSD_TRUE else XSD_FALSE)), s)
   \<and> ((\<forall>y. a \<noteq> CHR ''?'' # y) \<longrightarrow>
        evaluate env (Operation ''bound'' [Term a]) bindings s =
          (Inl (BoundExpectsVariable (Term a)), s))"
  by (cases a)
     (auto simp add: operators_bound_entry run_defs operators_bound_def raw_param_def
        in_bindings_def)

text \<open>
  C6. \<^verbatim>\<open>BOUND(?x)\<close> returns the true sentinel \<^verbatim>\<open>"true"^^xsd:boolean\<close> when \<^verbatim>\<open>?x\<close> has an
  entry in the bindings and the false sentinel \<^verbatim>\<open>"false"^^xsd:boolean\<close> when it has none,
  and raises an error for an argument that is no variable. The program answers by the
  presence of the key and raises that error (for a string and for an operation alike),
  but the two literals it returns are typed \<^verbatim>\<open>xsd:string\<close>, by the second declaration of
  \<^verbatim>\<open>XSD_BOOLEAN\<close> on line 7; neither is the sentinel of the claim.
\<close>

theorem C6_bound_returns_string_typed_literals:
  "evaluate env (Operation ''bound'' [Term ''?x'']) (Some [''?x'' \<mapsto> v]) s =
     (Inr (Str (dq @ ''true'' @ dq @ ''^^http://www.w3.org/2001/XMLSchema#string'')), s)
   \<and> evaluate env (Operation ''bound'' [Term ''?x'']) (Some Map.empty) s =
     (Inr (Str (dq @ ''false'' @ dq @ ''^^http://www.w3.org/2001/XMLSchema#string'')), s)
   \<and> evaluate env (Operation ''bound'' [Term ''?x'']) None s =
     (Inr (Str (dq @ ''false'' @ dq @ ''^^http://www.w3.org/2001/XMLSchema#string'')), s)
   \<and> evaluate env (Operation ''bound'' [Term (dq @ ''notAVar'' @ dq)]) bindings s =
     (Inl (BoundExpectsVariable (Term (dq @ ''notAVar'' @ dq))), s)
   \<and> evaluate env (Operation ''bound'' [Operation ''now'' []]) bindings s =
     (Inl (BoundExpectsVariable (Operation ''now'' [])), s)
   \<and> XSD_TRUE \<noteq> dq @ ''true'' @ dq @ ''^^http://www.w3.org/2001/XMLSchema#boolean''
   \<and> XSD_FALSE \<noteq> dq @ ''false'' @ dq @ ''^^http://www.w3.org/2001/XMLSchema#boolean''"
  by (simp add: operators_bound_entry run_defs operators_bound_def raw_param_def
        in_bindings_def dq_def XSD_TRUE_def XSD_FALSE_def XSD_BOOLEAN_def XSD_def)

section \<open>The number of arguments\<close>

text \<open>
  Whatever raises the error for a wrong number of arguments, at any depth of the
  expression, reports two numbers that differ.
\<close>

lemma arity_error_mismatch:
  "SparqlExpressionEvaluator env e = Inl (InvalidNumberOfArguments n k a) \<Longrightarrow> k \<noteq> a"
  "evaluators_operation env name args = Inl (InvalidNumberOfArguments n k a) \<Longrightarrow> k \<noteq> a"
  "compile_arguments env es = Inl (InvalidNumberOfArguments n k a) \<Longrightarrow> k \<noteq> a"
  by (induction env e and env name args and env es
      rule: SparqlExpressionEvaluator_evaluators_operation_compile_arguments.induct)
     (auto split: option.splits if_splits implementation.splits sum.splits)

text \<open>
  C7. For an operation whose operator is in the table, compiling fails with the
  arity-mismatch error of that operation (the one that reports its operator, the number
  of its arguments and the declared number of parameters) exactly when the two numbers
  differ. The failure is the result of compiling: \<open>SparqlExpressionEvaluator\<close> takes no
  bindings. When the numbers agree, an error of compiling comes from an argument.
\<close>

theorem C7_arity_checked_when_compiling:
  assumes "operators env name = Some operator"
  shows "((SparqlExpressionEvaluator env (Operation name args) =
             Inl (InvalidNumberOfArguments (toUpperCase env name) (length args)
                    (op_length operator)))
          = (length args \<noteq> op_length operator))
         \<and> (length args = op_length operator \<longrightarrow>
              SparqlExpressionEvaluator env (Operation name args) = Inl e \<longrightarrow>
              compile_arguments env args = Inl e)"
proof
  show "(SparqlExpressionEvaluator env (Operation name args) =
           Inl (InvalidNumberOfArguments (toUpperCase env name) (length args)
                  (op_length operator)))
        = (length args \<noteq> op_length operator)"
  proof
    assume "SparqlExpressionEvaluator env (Operation name args) =
              Inl (InvalidNumberOfArguments (toUpperCase env name) (length args)
                     (op_length operator))"
    then show "length args \<noteq> op_length operator"
      by (rule arity_error_mismatch(1))
  next
    assume "length args \<noteq> op_length operator"
    with assms show "SparqlExpressionEvaluator env (Operation name args) =
              Inl (InvalidNumberOfArguments (toUpperCase env name) (length args)
                     (op_length operator))"
      by auto
  qed
next
  show "length args = op_length operator \<longrightarrow>
          SparqlExpressionEvaluator env (Operation name args) = Inl e \<longrightarrow>
          compile_arguments env args = Inl e"
    using assms by (auto split: implementation.splits sum.splits)
qed

text \<open>
  \<^verbatim>\<open>!\<close> declares one parameter: no argument is refused, one argument is not, and an
  inner \<^verbatim>\<open>!\<close> with two arguments reports its own two numbers.
\<close>

theorem C7_arity_checked_when_compiling_witness:
  "SparqlExpressionEvaluator test_env (Operation ''!'' []) =
     Inl (InvalidNumberOfArguments ''!'' 0 1)
   \<and> SparqlExpressionEvaluator test_env
        (Operation ''!'' [Operation ''!'' [Term ''?x'', Term ''?y'']]) =
     Inl (InvalidNumberOfArguments ''!'' 2 1)
   \<and> SparqlExpressionEvaluator test_env (Operation ''!'' [Term ''?x''])
        \<noteq> Inl (InvalidNumberOfArguments ''!'' 1 1)"
proof -
  have u: "toUpperCase test_env ''!'' = ''!''"
    by (simp add: test_env_def map_chars_def ascii_lower_def ascii_upper_def)
  note t = C7_arity_checked_when_compiling[OF operators_not_entry, of test_env]
  have a: "SparqlExpressionEvaluator test_env (Operation ''!'' []) =
             Inl (InvalidNumberOfArguments ''!'' 0 1)"
    using t[of "[]"] u by simp
  have b: "SparqlExpressionEvaluator test_env (Operation ''!'' [Term ''?x''])
             \<noteq> Inl (InvalidNumberOfArguments ''!'' 1 1)"
    using t[of "[Term ''?x'']"] u by simp
  have c: "SparqlExpressionEvaluator test_env
             (Operation ''!'' [Operation ''!'' [Term ''?x'', Term ''?y'']]) =
           Inl (InvalidNumberOfArguments ''!'' 2 1)"
    using t[of "[Term ''?x'', Term ''?y'']"] u by (simp add: operators_not_entry fn1_def)
  from a b c show ?thesis by simp
qed

section \<open>CONCAT\<close>

text \<open>
  C8. \<^verbatim>\<open>CONCAT("foo", "bar")\<close> returns the concatenation of the lexical values, tagged
  as \<^verbatim>\<open>constructLiteral\<close> tags its first argument. In the program \<^verbatim>\<open>concat\<close> declares no
  parameter, so the two arguments are refused when compiling; and applied to no argument
  at all it raises a TypeError, \<^verbatim>\<open>arguments\<close> having no \<^verbatim>\<open>forEach\<close>.
\<close>

theorem C8_concat_is_refused:
  "SparqlExpressionEvaluator env
     (Operation ''concat'' [Term (dq @ ''foo'' @ dq), Term (dq @ ''bar'' @ dq)]) =
     Inl (InvalidNumberOfArguments (toUpperCase env ''concat'') 2 0)
   \<and> evaluate env
     (Operation ''concat'' [Term (dq @ ''foo'' @ dq), Term (dq @ ''bar'' @ dq)]) bindings s =
     (Inl (InvalidNumberOfArguments (toUpperCase env ''concat'') 2 0), s)
   \<and> evaluate env (Operation ''concat'' []) bindings s = (Inl TypeError, s)"
  by (simp add: operators_concat_entry run_defs operators_concat_def)

section \<open>No hidden state\<close>

text \<open>
  Of the functions of the table, only \<^verbatim>\<open>rand\<close>, \<^verbatim>\<open>uuid\<close> and \<^verbatim>\<open>struuid\<close> touch the random
  source; tagging changes neither the function nor its number of parameters.
\<close>

lemma table_pure:
  "list_all (\<lambda>(name, operator). name \<in> set random_operators \<or> pure_implementation (op_impl operator))
     (operator_table env)"
  by (simp add: operator_table_def entry_def fn1_def fn2_def fn3_def throwing_def empty_body_def
        random_operators_def pure_implementation_def)

lemma operators_impl:
  assumes "operators env name = Some operator"
  shows "\<exists>operator0. map_of (operator_table env) name = Some operator0 \<and>
           op_impl operator = op_impl operator0 \<and> op_length operator = op_length operator0"
  using assms by (auto simp add: operators_def tag_all_def split: if_splits)

lemma operators_pure:
  assumes "operators env name = Some operator" "name \<notin> set random_operators"
  shows "pure_implementation (op_impl operator)"
proof -
  from operators_impl[OF assms(1)] obtain operator0 where
    m: "map_of (operator_table env) name = Some operator0" and i: "op_impl operator = op_impl operator0"
    by blast
  from m have "(name, operator0) \<in> set (operator_table env)" by (rule map_of_SomeD)
  with table_pure[of env] assms(2) have "pure_implementation (op_impl operator0)"
    by (auto simp add: list_all_iff)
  with i show ?thesis by simp
qed

lemma evaluate_arguments_stateless:
  "list_all stateless fs \<Longrightarrow>
   evaluate_arguments env type fs bindings s = (fst (evaluate_arguments env type fs bindings s'), s)"
proof (induction fs arbitrary: s s')
  case Nil
  then show ?case by simp
next
  case (Cons f fs)
  from Cons.prems have fs: "list_all stateless fs" and "stateless f"
    by simp_all
  then have f: "\<And>s s'. f bindings s = (fst (f bindings s'), s)"
    by (simp add: stateless_def)
  obtain r where r: "f bindings s' = (r, s')" using f[of s' s'] by (cases "f bindings s'") auto
  then have r2: "f bindings s = (r, s)" using f[of s s'] by simp
  show ?case using Cons.IH[OF fs, of s s'] r r2
    by (auto split: sum.splits prod.splits)
qed

lemma operation_closure_stateless:
  assumes "list_all stateless fs" "\<And>args s s'. f args s = (fst (f args s'), s)"
  shows "stateless (operation_closure env operator f fs)"
  unfolding stateless_def operation_closure_def
proof (intro allI)
  fix bindings s s'
  obtain r where r: "evaluate_arguments env (op_type operator) fs bindings s' = (r, s')"
    using evaluate_arguments_stateless[OF assms(1), of env "op_type operator" bindings s' s']
    by (cases "evaluate_arguments env (op_type operator) fs bindings s'") auto
  then have r2: "evaluate_arguments env (op_type operator) fs bindings s = (r, s)"
    using evaluate_arguments_stateless[OF assms(1), of env "op_type operator" bindings s s'] by simp
  show "(case evaluate_arguments env (op_type operator) fs bindings s of
          (Inl e, s') \<Rightarrow> (Inl e, s')
        | (Inr (args, origArgs), s') \<Rightarrow>
            (case f args s' of
               (Inl e, s'') \<Rightarrow> (Inl e, s'')
             | (Inr result, s'') \<Rightarrow>
                 (convert_result env (op_resultType operator) origArgs result, s''))) =
        (fst (case evaluate_arguments env (op_type operator) fs bindings s' of
          (Inl e, s') \<Rightarrow> (Inl e, s')
        | (Inr (args, origArgs), s') \<Rightarrow>
            (case f args s' of
               (Inl e, s'') \<Rightarrow> (Inl e, s'')
             | (Inr result, s'') \<Rightarrow>
                 (convert_result env (op_resultType operator) origArgs result, s''))), s)"
  proof (cases r)
    case (Inl e)
    then show ?thesis using r r2 by simp
  next
    case (Inr p)
    obtain args origArgs where p: "p = (args, origArgs)" by (cases p)
    obtain q where q: "f args s' = (q, s')" using assms(2)[of args s' s'] by (cases "f args s'") auto
    then have q2: "f args s = (q, s)" using assms(2)[of args s s'] by simp
    show ?thesis using r r2 Inr p q q2 by (cases q) simp_all
  qed
qed

lemma compile_stateless:
  "SparqlExpressionEvaluator env e = Inr evaluator \<Longrightarrow> \<not> contains_random_operator e \<Longrightarrow>
     stateless evaluator"
  "evaluators_operation env name args = Inr evaluator \<Longrightarrow> name \<notin> set random_operators \<Longrightarrow>
     \<not> any_contains_random_operator args \<Longrightarrow> stateless evaluator"
  "compile_arguments env es = Inr evaluators \<Longrightarrow> \<not> any_contains_random_operator es \<Longrightarrow>
     list_all stateless evaluators"
proof (induction env e and env name args and env es
      arbitrary: evaluator and evaluator and evaluators
      rule: SparqlExpressionEvaluator_evaluators_operation_compile_arguments.induct)
  case (1 env)
  then show ?case by (auto simp add: stateless_def noop_def)
next
  case (2 env expression)
  then show ?case
    by (auto simp add: stateless_def noop_def evaluators_string_def split: if_splits option.splits)
next
  case (3 env operatorName args)
  then show ?case by simp
next
  case (4 env expressionType)
  then show ?case by (auto simp add: stateless_def noop_def split: if_splits)
next
  case (5 env operatorName args)
  from "5.prems"(1) obtain operator where
    op: "operators env operatorName = Some operator" and len: "op_length operator = length args"
    by (auto split: option.splits if_splits)
  have pure: "pure_implementation (op_impl operator)"
    using operators_pure[OF op "5.prems"(2)] .
  show ?case
  proof (cases "op_impl operator")
    case (Raw g)
    with "5.prems"(1) op len show ?thesis by (auto simp add: stateless_def)
  next
    case (Evaluated f)
    with "5.prems"(1) op len obtain fs where
      fs: "compile_arguments env args = Inr fs" and
      ev: "evaluator = operation_closure env operator f fs"
      by (auto split: sum.splits)
    have "list_all stateless fs"
      using "5.IH"[OF op _ Evaluated fs "5.prems"(3)] len by simp
    moreover have "\<And>args s s'. f args s = (fst (f args s'), s)"
      using pure Evaluated by (simp add: pure_implementation_def)
    ultimately show ?thesis unfolding ev by (rule operation_closure_stateless)
  qed
next
  case (6 env)
  then show ?case by simp
next
  case (7 env arg rest)
  then show ?case by (auto split: sum.splits)
qed

text \<open>
  C9. An expression that names none of \<^verbatim>\<open>rand\<close>, \<^verbatim>\<open>uuid\<close>, \<^verbatim>\<open>struuid\<close> compiles to an
  evaluator whose output, for given bindings, is the same from every state of the random
  source, and which leaves that state as it found it; so a second invocation with the
  same bindings, right after the first, returns what the first returned.
\<close>

theorem C9_no_hidden_state:
  assumes "SparqlExpressionEvaluator env e = Inr evaluator"
    and "\<not> contains_random_operator e"
  shows "evaluator bindings s = (fst (evaluator bindings s'), s)
         \<and> fst (evaluator bindings (snd (evaluator bindings s))) = fst (evaluator bindings s)"
proof -
  from compile_stateless(1)[OF assms] have st: "stateless evaluator" .
  then have a: "\<And>s s'. evaluator bindings s = (fst (evaluator bindings s'), s)"
    by (simp add: stateless_def)
  have "fst (evaluator bindings (snd (evaluator bindings s))) = fst (evaluator bindings s)"
    using a[of "snd (evaluator bindings s)" s] by simp
  with a[of s s'] show ?thesis by simp
qed

theorem C9_no_hidden_state_witness:
  "evaluate test_env (Operation ''!'' [Operation ''bound'' [Term ''?x'']]) (Some Map.empty) 1 =
     (fst (evaluate test_env (Operation ''!'' [Operation ''bound'' [Term ''?x'']])
             (Some Map.empty) 0), 1)"
proof -
  obtain f where f: "SparqlExpressionEvaluator test_env
      (Operation ''!'' [Operation ''bound'' [Term ''?x'']]) = Inr f"
    by (simp add: operators_not_entry operators_bound_entry fn1_def)
  have n: "\<not> contains_random_operator (Operation ''!'' [Operation ''bound'' [Term ''?x'']])"
    by (simp add: random_operators_def)
  have ev: "\<And>s. evaluate test_env (Operation ''!'' [Operation ''bound'' [Term ''?x'']])
                 (Some Map.empty) s = f (Some Map.empty) s"
    unfolding evaluate_def f by simp
  from C9_no_hidden_state[OF f n, of "Some Map.empty" 1 0] show ?thesis
    unfolding ev by blast
qed

text \<open>The three operators are left out for a reason: two calls of \<^verbatim>\<open>rand\<close> differ.\<close>

lemma rand_draws_from_the_source:
  "evaluate test_env (Operation ''rand'' []) None 0 = (Inr (Num (Some 0)), 1)
   \<and> evaluate test_env (Operation ''rand'' []) None 1 = (Inr (Num (Some 1)), 2)"
  by (simp add: table_defs run_defs operators_rand_def test_env_def)

section \<open>Equality\<close>

text \<open>
  \<^verbatim>\<open>=\<close> has no argument conversion (its \<^verbatim>\<open>type\<close> tag is unset): on two arguments that
  evaluate to the term strings \<open>x\<close> and \<open>y\<close> the result is the constant \<^verbatim>\<open>XSD_TRUE\<close> when
  the two strings are the same string and the constant \<^verbatim>\<open>XSD_FALSE\<close> otherwise.
\<close>

lemma equality_compares_strings:
  assumes "SparqlExpressionEvaluator env a = Inr fa"
    and "SparqlExpressionEvaluator env b = Inr fb"
    and "fa bindings s = (Inr (Str x), s1)"
    and "fb bindings s1 = (Inr (Str y), s2)"
  shows "evaluate env (Operation ''='' [a, b]) bindings s =
           (Inr (Str (if x = y then XSD_TRUE else XSD_FALSE)), s2)
         \<and> (\<exists>operator. operators env ''='' = Some operator \<and> op_type operator = None)"
  using assms by (simp add: operators_equal run_defs truthy_def)

text \<open>
  C10. \<^verbatim>\<open>=\<close> receives no argument conversion, so equality is exact comparison of the two
  term strings, and literals that denote the same value in different forms evaluate to
  the false sentinel \<^verbatim>\<open>"false"^^xsd:boolean\<close>. The program does compare the strings
  unconverted: \<^verbatim>\<open>"1"^^xsd:integer = "01"^^xsd:integer\<close> and \<^verbatim>\<open>"1" = "1"^^xsd:integer\<close> are
  both found unequal, and \<^verbatim>\<open>"1" = "1"\<close> equal. But what it returns for the two unequal
  pairs is the literal \<^verbatim>\<open>"false"\<close> typed \<^verbatim>\<open>xsd:string\<close>, by the second declaration of
  \<^verbatim>\<open>XSD_BOOLEAN\<close> on line 7, which is not the false sentinel of the claim.
\<close>

theorem C10_unequal_literals_give_string_typed_false:
  "evaluate env (Operation ''=''
      [Term (dq @ ''1'' @ dq @ ''^^http://www.w3.org/2001/XMLSchema#integer''),
       Term (dq @ ''01'' @ dq @ ''^^http://www.w3.org/2001/XMLSchema#integer'')]) bindings s =
     (Inr (Str (dq @ ''false'' @ dq @ ''^^http://www.w3.org/2001/XMLSchema#string'')), s)
   \<and> evaluate env (Operation ''=''
      [Term (dq @ ''1'' @ dq),
       Term (dq @ ''1'' @ dq @ ''^^http://www.w3.org/2001/XMLSchema#integer'')]) bindings s =
     (Inr (Str (dq @ ''false'' @ dq @ ''^^http://www.w3.org/2001/XMLSchema#string'')), s)
   \<and> evaluate env (Operation ''='' [Term (dq @ ''1'' @ dq), Term (dq @ ''1'' @ dq)]) bindings s =
     (Inr (Str (dq @ ''true'' @ dq @ ''^^http://www.w3.org/2001/XMLSchema#string'')), s)
   \<and> (\<exists>operator. operators env ''='' = Some operator \<and> op_type operator = None)
   \<and> XSD_FALSE \<noteq> dq @ ''false'' @ dq @ ''^^http://www.w3.org/2001/XMLSchema#boolean''"
  by (simp add: operators_equal run_defs truthy_def dq_def XSD_TRUE_def XSD_FALSE_def
        XSD_BOOLEAN_def XSD_def)

end
